theory Spec2Isabelle
  imports Main "HOL-Library.Word"
begin

unbundle bit_operations_syntax

section \<open>Taxonomy: signals, classifications, side effects\<close>

text \<open>
  Package taxonomy. \<open>SideEffectType\<close> and \<open>Tier\<close> are string types in the source, so they
  are strings here. Go's \<open>int\<close> is modelled as \<open>int\<close>: the weights of the analyzers are
  small constants.
\<close>

type_synonym SideEffectType = string
type_synonym Tier = string

datatype ClassificationLabel = Contractual | Incidental | Ambiguous

record Signal =
  Source :: string
  Weight :: int
  SourceFile :: string
  Excerpt :: string
  Reasoning :: string

text \<open>The zero value \<open>taxonomy.Signal{}\<close>.\<close>

definition zeroSignal :: Signal where
  "zeroSignal = \<lparr>Source = '''', Weight = 0, SourceFile = '''', Excerpt = '''', Reasoning = ''''\<rparr>"

record Classification =
  Label :: ClassificationLabel
  Confidence :: int
  Signals :: "Signal list"
  CReasoning :: string

record SideEffect =
  ID :: string
  Type :: SideEffectType
  ETier :: Tier
  Location :: string
  Description :: string
  Target :: string
  Classification :: "Classification option"

record FunctionTarget =
  Package :: string
  Function :: string
  Receiver :: string
  Signature :: string
  TLocation :: string

record Metadata =
  GazeVersion :: string
  GoVersion :: string
  Duration :: int
  Warnings :: "string list"

record AnalysisResult =
  RTarget :: FunctionTarget
  SideEffects :: "SideEffect list"
  RMetadata :: Metadata

section \<open>Configuration\<close>

text \<open>Package config. \<open>time.Duration\<close> is a count of nanoseconds.\<close>

record Thresholds =
  TContractual :: int
  TIncidental :: int

record DocScan =
  Exclude :: "string list"
  Include :: "string list"
  Timeout :: int
  TimeoutStr :: string

record ClassificationConfig =
  CThresholds :: Thresholds
  CDocScan :: DocScan

record GazeConfig =
  GClassification :: ClassificationConfig

definition Second :: int where
  "Second = 1000000000"

definition DefaultConfig :: GazeConfig where
  "DefaultConfig = \<lparr>GClassification = \<lparr>
     CThresholds = \<lparr>TContractual = 80, TIncidental = 50\<rparr>,
     CDocScan = \<lparr>
       Exclude = [''vendor/**'', ''node_modules/**'', ''.git/**'', ''testdata/**'',
         ''CHANGELOG.md'', ''CONTRIBUTING.md'', ''CODE_OF_CONDUCT.md'', ''LICENSE'',
         ''LICENSE.md''],
       Include = [],
       Timeout = 30 * Second,
       TimeoutStr = ''30s''\<rparr>\<rparr>\<rparr>"

section \<open>Score composer\<close>

text \<open>
  Modelled from the spec: \<open>ComputeScore\<close> (the file of package classify that defines it is
  not among the sources; \<open>Classify\<close> and the tests call it). The spec, section 4.5:
  score = 50 + the sum of the weights; a contradiction penalty of 20 when the signals hold
  both a strictly positive and a strictly negative weight; clamp to [0, 100]; the label is
  contractual if the score reaches the contractual threshold, incidental if it is below the
  incidental threshold, ambiguous otherwise. The tests pass a nil configuration and expect
  the default thresholds; the classification carries the signals it was computed from.
\<close>

definition baseConfidence :: int where
  "baseConfidence = 50"

definition contradictionPenalty :: int where
  "contradictionPenalty = 20"

definition hasContradiction :: "Signal list \<Rightarrow> bool" where
  "hasContradiction signals \<longleftrightarrow>
     list_ex (\<lambda>s. 0 < Weight s) signals \<and> list_ex (\<lambda>s. Weight s < 0) signals"

definition clampScore :: "int \<Rightarrow> int" where
  "clampScore score = (if score < 0 then 0 else if 100 < score then 100 else score)"

definition rawScore :: "Signal list \<Rightarrow> int" where
  "rawScore signals =
     (let score = baseConfidence + sum_list (map Weight signals)
      in if hasContradiction signals then score - contradictionPenalty else score)"

definition thresholdsOf :: "GazeConfig option \<Rightarrow> Thresholds" where
  "thresholdsOf cfg =
     CThresholds (GClassification (case cfg of None \<Rightarrow> DefaultConfig | Some c \<Rightarrow> c))"

definition labelOf :: "Thresholds \<Rightarrow> int \<Rightarrow> ClassificationLabel" where
  "labelOf t score =
     (if TContractual t \<le> score then Contractual
      else if score < TIncidental t then Incidental
      else Ambiguous)"

definition ComputeScore :: "Signal list \<Rightarrow> GazeConfig option \<Rightarrow> Classification" where
  "ComputeScore signals cfg =
     (let score = clampScore (rawScore signals)
      in \<lparr>Label = labelOf (thresholdsOf cfg) score, Confidence = score,
          Signals = signals, CReasoning = ''''\<rparr>)"

text \<open>A signal that carries only a source and a weight, as the tests build them.\<close>

definition sig :: "string \<Rightarrow> int \<Rightarrow> Signal" where
  "sig src w = \<lparr>Source = src, Weight = w, SourceFile = '''', Excerpt = '''', Reasoning = ''''\<rparr>"

definition withThresholds :: "int \<Rightarrow> int \<Rightarrow> GazeConfig" where
  "withThresholds c i =
     DefaultConfig\<lparr>GClassification :=
       (GClassification DefaultConfig)\<lparr>CThresholds := \<lparr>TContractual = c, TIncidental = i\<rparr>\<rparr>\<rparr>"

section \<open>Program model: types, objects, packages\<close>

text \<open>
  The part of \<open>go/types\<close>, \<open>go/ast\<close> and \<open>go/packages\<close> that the code reads. A pointer is
  the address it holds; two objects are the same object when their addresses are equal,
  which is what \<open>==\<close> on \<open>types.Object\<close> and on \<open>*types.Package\<close> compares. A nil pointer
  or nil interface is \<open>None\<close>.
\<close>

type_synonym addr = nat

datatype ObjKind = FuncObj | TypeNameObj | OtherObj

datatype GoType =
    Basic string
  | Pointer GoType
  | Slice GoType
  | MapType GoType GoType
  | Chan GoType
  | Signature "GoType option"
  | Named string "Object list"
and Object =
    Object (oaddr: addr) (okind: ObjKind) (opkg: "addr option") (oname: string) (otype: GoType)

text \<open>
  \<open>Signature r\<close> is a function type whose receiver has type \<open>r\<close> (\<open>sig.Recv().Type()\<close>; no
  receiver: \<open>None\<close>); \<open>Named n ms\<close> is a defined type with its declared methods in the order
  of \<open>Method(i)\<close>.
\<close>

text \<open>
  Syntax trees: the expressions and statements the detectors look at. An assignment
  carries its position (as \<open>file:line:col\<close>) and its token (\<open>=\<close>, \<open>:=\<close>, \<open>+=\<close>, ...).
\<close>

datatype Expr =
    Ident string
  | SelectorExpr Expr string
  | IndexExpr Expr Expr
  | StarExpr Expr
  | ParenExpr Expr
  | UnaryExpr string Expr
  | BinaryExpr Expr string Expr
  | CallExpr Expr "Expr list"
  | BasicLit string
  | FuncLit "Stmt list"
and Stmt =
    AssignStmt string string "Expr list" "Expr list"
  | IncDecStmt string Expr
  | ExprStmt Expr
  | DeferStmt Expr
  | ReturnStmt "Expr list"
  | BlockStmt "Stmt list"
  | IfStmt Expr "Stmt list" "Stmt list"
  | ForStmt "Stmt list"

text \<open>
  A function declaration with the types the type checker gives its receiver, parameters
  and results (an unnamed result has the empty name), its doc comment, its position and
  the text of its signature.
\<close>

record FuncDecl =
  Name :: string
  Doc :: string
  Recv :: "(string \<times> GoType) option"
  Params :: "(string \<times> GoType) list"
  Results :: "(string \<times> GoType) list"
  Body :: "Stmt list"
  Pos :: string
  Sig :: string

datatype Decl = FuncDeclD FuncDecl | GenDeclD

record TypesPackage =
  tpaddr :: addr
  scope :: "(string \<times> Object) list"

record TypesInfo =
  Uses :: "(addr \<times> Object) list"

record GoPackage =
  PkgPath :: string
  Errors :: "string list"
  Fset :: addr
  Types :: "TypesPackage option"
  PTypesInfo :: "TypesInfo option"
  Syntax :: "Decl list list"

text \<open>
  \<open>Syntax\<close> is the list of files, a file the list of its declarations. The scope of a
  package lists its names in the order of \<open>Scope().Names()\<close> with the object \<open>Lookup\<close>
  finds; \<open>Uses\<close> maps identifier occurrences to the objects they denote.
\<close>

section \<open>Caller signal\<close>

definition maxCallerWeight :: int where
  "maxCallerWeight = 15"

text \<open>\<open>fmt.Sprintf("%d", n)\<close> for a count.\<close>

definition digitChar :: "nat \<Rightarrow> char" where
  "digitChar d = ''0123456789'' ! d"

fun showNat :: "nat \<Rightarrow> string" where
  "showNat n = (if n < 10 then [digitChar n] else showNat (n div 10) @ [digitChar (n mod 10)])"

text \<open>The inner loop of \<open>countCallers\<close>: it stops at the first use that is the function.\<close>

fun usesObject :: "(addr \<times> Object) list \<Rightarrow> Object \<Rightarrow> bool" where
  "usesObject [] funcObj = False"
| "usesObject ((ident, obj) # rest) funcObj =
     (if oaddr obj = oaddr funcObj then True else usesObject rest funcObj)"

fun countCallersLoop :: "Object \<Rightarrow> GoPackage list \<Rightarrow> nat \<Rightarrow> nat" where
  "countCallersLoop funcObj [] count = count"
| "countCallersLoop funcObj (pkg # pkgs) count =
     (case PTypesInfo pkg of
        None \<Rightarrow> countCallersLoop funcObj pkgs count
      | Some info \<Rightarrow>
          if map_option tpaddr (Types pkg) = opkg funcObj
          then countCallersLoop funcObj pkgs count
          else if usesObject (Uses info) funcObj
          then countCallersLoop funcObj pkgs (count + 1)
          else countCallersLoop funcObj pkgs count)"

definition countCallers :: "Object \<Rightarrow> GoPackage list \<Rightarrow> nat" where
  "countCallers funcObj pkgs = countCallersLoop funcObj pkgs 0"

definition AnalyzeCallerSignal :: "Object option \<Rightarrow> SideEffectType \<Rightarrow> GoPackage list \<Rightarrow> Signal" where
  "AnalyzeCallerSignal funcObj effectType modulePkgs =
     (case funcObj of
        None \<Rightarrow> zeroSignal
      | Some f \<Rightarrow>
          let callerCount = countCallers f modulePkgs in
          if callerCount = 0 then zeroSignal
          else
            let weight = (if 4 \<le> callerCount then maxCallerWeight
                          else if 2 \<le> callerCount then 10 else 5)
            in \<lparr>Source = ''caller'', Weight = weight, SourceFile = '''', Excerpt = '''',
                Reasoning = showNat callerCount @ '' caller(s) reference this function''\<rparr>)"

section \<open>Classification engine\<close>

text \<open>
  The four other analyzers (interface, visibility, naming, godoc) are defined in files of
  package classify that are not among the sources; \<open>classifySideEffect\<close> calls them with
  the arguments below, so they are parameters of the model.
\<close>

record Analyzers =
  AnalyzeInterfaceSignal :: "string \<Rightarrow> GoType option \<Rightarrow> SideEffectType \<Rightarrow> GoPackage list \<Rightarrow> Signal"
  AnalyzeVisibilitySignal :: "FuncDecl option \<Rightarrow> Object option \<Rightarrow> SideEffectType \<Rightarrow> Signal"
  AnalyzeNamingSignal :: "string \<Rightarrow> SideEffectType \<Rightarrow> Signal"
  AnalyzeGodocSignal :: "FuncDecl option \<Rightarrow> SideEffectType \<Rightarrow> Signal"

record Options =
  Config :: "GazeConfig option"
  ModulePackages :: "GoPackage list"
  TargetPkg :: "GoPackage option"
  Verbose :: bool

text \<open>\<open>if s := ...; s.Source != "" { signals = append(signals, s) }\<close>\<close>

definition appendSignal :: "Signal list \<Rightarrow> Signal \<Rightarrow> Signal list" where
  "appendSignal signals s = (if Source s \<noteq> '''' then signals @ [s] else signals)"

definition classifySideEffect ::
  "Analyzers \<Rightarrow> string \<Rightarrow> FuncDecl option \<Rightarrow> Object option \<Rightarrow> GoType option \<Rightarrow> SideEffectType
    \<Rightarrow> Options \<Rightarrow> Signal list" where
  "classifySideEffect an funcName funcDecl funcObj receiverType effectType opts =
     (let signals = [];
          signals = appendSignal signals
            (AnalyzeInterfaceSignal an funcName receiverType effectType (ModulePackages opts));
          signals = appendSignal signals
            (AnalyzeVisibilitySignal an funcDecl funcObj effectType);
          signals = appendSignal signals
            (AnalyzeCallerSignal funcObj effectType (ModulePackages opts));
          signals = appendSignal signals
            (AnalyzeNamingSignal an funcName effectType);
          signals = appendSignal signals
            (AnalyzeGodocSignal an funcDecl effectType)
      in signals)"

text \<open>\<open>buildFuncDeclMap\<close>: a later declaration of a name replaces an earlier one.\<close>

fun declsInto :: "Decl list \<Rightarrow> (string \<rightharpoonup> FuncDecl) \<Rightarrow> (string \<rightharpoonup> FuncDecl)" where
  "declsInto [] m = m"
| "declsInto (FuncDeclD fd # ds) m = declsInto ds (m(Name fd \<mapsto> fd))"
| "declsInto (GenDeclD # ds) m = declsInto ds m"

fun filesInto :: "Decl list list \<Rightarrow> (string \<rightharpoonup> FuncDecl) \<Rightarrow> (string \<rightharpoonup> FuncDecl)" where
  "filesInto [] m = m"
| "filesInto (f # fs) m = filesInto fs (declsInto f m)"

definition buildFuncDeclMap :: "GoPackage option \<Rightarrow> (string \<rightharpoonup> FuncDecl)" where
  "buildFuncDeclMap pkg =
     (case pkg of None \<Rightarrow> Map.empty | Some p \<Rightarrow> filesInto (Syntax p) Map.empty)"

text \<open>
  \<open>buildFuncObjMap\<close>. \<open>pkg.Types.Scope()\<close> of a nil \<open>pkg.Types\<close> is the universe scope,
  which holds no \<open>*types.Func\<close> and no named type with declared methods: both loops add
  nothing, as over an empty scope.
\<close>

definition scopeOf :: "GoPackage \<Rightarrow> (string \<times> Object) list" where
  "scopeOf p = (case Types p of None \<Rightarrow> [] | Some t \<Rightarrow> scope t)"

fun funcsInto ::
  "(string \<times> Object) list \<Rightarrow> string list \<Rightarrow> (string \<rightharpoonup> Object) \<Rightarrow> (string \<rightharpoonup> Object)" where
  "funcsInto sc [] m = m"
| "funcsInto sc (name # names) m =
     (case map_of sc name of
        Some obj \<Rightarrow>
          if okind obj = FuncObj then funcsInto sc names (m(name \<mapsto> obj))
          else funcsInto sc names m
      | None \<Rightarrow> funcsInto sc names m)"

fun methodsInto :: "Object list \<Rightarrow> (string \<rightharpoonup> Object) \<Rightarrow> (string \<rightharpoonup> Object)" where
  "methodsInto [] m = m"
| "methodsInto (method # ms) m = methodsInto ms (m(oname method \<mapsto> method))"

fun namedInto ::
  "(string \<times> Object) list \<Rightarrow> string list \<Rightarrow> (string \<rightharpoonup> Object) \<Rightarrow> (string \<rightharpoonup> Object)" where
  "namedInto sc [] m = m"
| "namedInto sc (name # names) m =
     (case map_of sc name of
        Some obj \<Rightarrow>
          if okind obj = TypeNameObj
          then (case otype obj of
                  Named n methods \<Rightarrow> namedInto sc names (methodsInto methods m)
                | _ \<Rightarrow> namedInto sc names m)
          else namedInto sc names m
      | None \<Rightarrow> namedInto sc names m)"

definition buildFuncObjMap :: "GoPackage option \<Rightarrow> (string \<rightharpoonup> Object)" where
  "buildFuncObjMap pkg =
     (case pkg of
        None \<Rightarrow> Map.empty
      | Some p \<Rightarrow>
          let sc = scopeOf p;
              m = funcsInto sc (map fst sc) Map.empty
          in namedInto sc (map fst sc) m)"

text \<open>The receiver type of a method, with a pointer receiver unwrapped.\<close>

definition receiverTypeOf :: "Object option \<Rightarrow> GoType option" where
  "receiverTypeOf funcObj =
     (case funcObj of
        None \<Rightarrow> None
      | Some obj \<Rightarrow>
          (case otype obj of
             Signature (Some recv) \<Rightarrow>
               (case recv of Pointer elem \<Rightarrow> Some elem | _ \<Rightarrow> Some recv)
           | _ \<Rightarrow> None))"

definition stripDetail :: "Signal \<Rightarrow> Signal" where
  "stripDetail s = s\<lparr>SourceFile := '''', Excerpt := '''', Reasoning := ''''\<rparr>"

text \<open>The body of the inner loop of \<open>Classify\<close>, for one side effect.\<close>

definition classifyEffect ::
  "Analyzers \<Rightarrow> Options \<Rightarrow> string \<Rightarrow> FuncDecl option \<Rightarrow> Object option \<Rightarrow> GoType option
    \<Rightarrow> SideEffect \<Rightarrow> SideEffect" where
  "classifyEffect an opts funcName funcDecl funcObj receiverType se =
     (let signals = classifySideEffect an funcName funcDecl funcObj receiverType (Type se) opts;
          classification = ComputeScore signals (Config opts);
          classification =
            (if \<not> Verbose opts
             then classification\<lparr>Signals := map stripDetail (Signals classification)\<rparr>
             else classification)
      in se\<lparr>Classification := Some classification\<rparr>)"

text \<open>The body of the outer loop, for one analysis result.\<close>

definition classifyResult ::
  "Analyzers \<Rightarrow> Options \<Rightarrow> (string \<rightharpoonup> FuncDecl) \<Rightarrow> (string \<rightharpoonup> Object)
    \<Rightarrow> AnalysisResult \<Rightarrow> AnalysisResult" where
  "classifyResult an opts funcDecls funcObjs result =
     (let funcName = Function (RTarget result);
          funcDecl = funcDecls funcName;
          funcObj = funcObjs funcName;
          receiverType = receiverTypeOf funcObj
      in result\<lparr>SideEffects :=
           map (classifyEffect an opts funcName funcDecl funcObj receiverType)
             (SideEffects result)\<rparr>)"

definition withDefaultConfig :: "Options \<Rightarrow> Options" where
  "withDefaultConfig opts =
     (if Config opts = None then opts\<lparr>Config := Some DefaultConfig\<rparr> else opts)"

definition Classify :: "Analyzers \<Rightarrow> AnalysisResult list \<Rightarrow> Options \<Rightarrow> AnalysisResult list" where
  "Classify an results opts =
     (let opts = withDefaultConfig opts;
          funcDecls = buildFuncDeclMap (TargetPkg opts);
          funcObjs = buildFuncObjMap (TargetPkg opts)
      in map (classifyResult an opts funcDecls funcObjs) results)"

declare showNat.simps [simp del]

text \<open>
  The claim's words for the caller count: a package of the module list, other than the
  package that defines the function, whose \<open>Uses\<close> index contains the function object.
\<close>

definition otherPackageReferences :: "Object \<Rightarrow> GoPackage \<Rightarrow> bool" where
  "otherPackageReferences funcObj pkg \<longleftrightarrow>
     (case PTypesInfo pkg of
        None \<Rightarrow> False
      | Some info \<Rightarrow>
          map_option tpaddr (Types pkg) \<noteq> opkg funcObj
          \<and> (\<exists>u \<in> set (Uses info). oaddr (snd u) = oaddr funcObj))"

text \<open>
  A small module for the examples: package \<open>store\<close> defines \<open>Save\<close>; \<open>api\<close> uses it twice,
  \<open>cli\<close> once, \<open>other\<close> uses a different function of the same name, \<open>broken\<close> has no type
  information.
\<close>

definition saveObj :: Object where
  "saveObj = Object 100 FuncObj (Some 1) ''Save'' (Signature None)"

definition otherSaveObj :: Object where
  "otherSaveObj = Object 200 FuncObj (Some 4) ''Save'' (Signature None)"

definition mkPackage :: "string \<Rightarrow> addr \<Rightarrow> (string \<times> Object) list \<Rightarrow> (addr \<times> Object) list \<Rightarrow> GoPackage" where
  "mkPackage path a sc uses =
     \<lparr>PkgPath = path, Errors = [], Fset = 0,
      Types = Some \<lparr>tpaddr = a, scope = sc\<rparr>,
      PTypesInfo = Some \<lparr>Uses = uses\<rparr>, Syntax = []\<rparr>"

definition storePkg :: GoPackage where
  "storePkg = (mkPackage ''example.com/store'' 1 [(''Save'', saveObj)] [(10, saveObj)])
     \<lparr>Syntax := [[GenDeclD, FuncDeclD
        \<lparr>Name = ''Save'', Doc = ''Save stores the value.'', Recv = None, Params = [],
         Results = [('''', Named ''error'' [])],
         Body = [ReturnStmt [Ident ''nil'']], Pos = ''store.go:10:1'',
         Sig = ''func Save() error''\<rparr>]]\<rparr>"

definition apiPkg :: GoPackage where
  "apiPkg = mkPackage ''example.com/api'' 2 [] [(20, saveObj), (21, saveObj)]"

definition cliPkg :: GoPackage where
  "cliPkg = mkPackage ''example.com/cli'' 3 [] [(30, otherSaveObj), (31, saveObj)]"

definition otherPkg :: GoPackage where
  "otherPkg = mkPackage ''example.com/other'' 4 [(''Save'', otherSaveObj)] [(40, otherSaveObj)]"

definition brokenPkg :: GoPackage where
  "brokenPkg = (mkPackage ''example.com/broken'' 5 [] [(50, saveObj)])\<lparr>PTypesInfo := None\<rparr>"

definition modulePkgs :: "GoPackage list" where
  "modulePkgs = [storePkg, apiPkg, cliPkg, otherPkg, brokenPkg]"

text \<open>
  Stand-ins for the four analyzers that are parameters, for the examples only: a
  visibility signal and a naming signal with detail fields, no interface and no godoc
  signal.
\<close>

definition exampleAnalyzers :: Analyzers where
  "exampleAnalyzers =
     \<lparr>AnalyzeInterfaceSignal = (\<lambda>funcName receiverType effectType pkgs. zeroSignal),
      AnalyzeVisibilitySignal = (\<lambda>funcDecl funcObj effectType.
        \<lparr>Source = ''visibility'', Weight = 10, SourceFile = ''store.go'',
         Excerpt = ''func Save'', Reasoning = ''exported function''\<rparr>),
      AnalyzeNamingSignal = (\<lambda>funcName effectType.
        if take 4 funcName = ''Save''
        then \<lparr>Source = ''naming'', Weight = 10, SourceFile = '''', Excerpt = '''',
              Reasoning = ''prefix Save''\<rparr>
        else zeroSignal),
      AnalyzeGodocSignal = (\<lambda>funcDecl effectType. zeroSignal)\<rparr>"

definition exampleEffect :: SideEffect where
  "exampleEffect =
     \<lparr>ID = ''se-00000000'', Type = ''ErrorReturn'', ETier = ''P0'',
      Location = ''store.go:10:1'', Description = ''returns error'', Target = ''error'',
      Classification = None\<rparr>"

definition exampleResult :: AnalysisResult where
  "exampleResult =
     \<lparr>RTarget = \<lparr>Package = ''example.com/store'', Function = ''Save'', Receiver = '''',
        Signature = ''func Save() error'', TLocation = ''store.go:10:1''\<rparr>,
      SideEffects = [exampleEffect],
      RMetadata = \<lparr>GazeVersion = ''dev'', GoVersion = ''go1.24'', Duration = 0, Warnings = []\<rparr>\<rparr>"

definition exampleOptions :: Options where
  "exampleOptions =
     \<lparr>Config = None, ModulePackages = modulePkgs, TargetPkg = Some storePkg, Verbose = False\<rparr>"

section \<open>Loader\<close>

text \<open>
  Package loader. \<open>packages.Load\<close> belongs to \<open>golang.org/x/tools\<close>: what it returns for a
  pattern, an error or a list of packages, is a parameter. The errors of a package are
  kept as the texts \<open>e.Error()\<close> gives.
\<close>

datatype LoadError =
    LoadingPackage string string
  | NoPackagesFound string
  | PackageHasErrors string string

record LoadResult =
  Pkg :: GoPackage
  RFset :: addr

text \<open>\<open>strings.Join\<close>\<close>

fun joinStrings :: "string list \<Rightarrow> string \<Rightarrow> string" where
  "joinStrings [] sep = ''''"
| "joinStrings [x] sep = x"
| "joinStrings (x # y # ys) sep = x @ sep @ joinStrings (y # ys) sep"

definition Load :: "(string \<Rightarrow> string + GoPackage list) \<Rightarrow> string \<Rightarrow> LoadError + LoadResult" where
  "Load packagesLoad pattern =
     (case packagesLoad pattern of
        Inl err \<Rightarrow> Inl (LoadingPackage pattern err)
      | Inr pkgs \<Rightarrow>
          (case pkgs of
             [] \<Rightarrow> Inl (NoPackagesFound pattern)
           | pkg # others \<Rightarrow>
               let errs = Errors pkg
               in if 0 < length errs
                  then Inl (PackageHasErrors pattern (joinStrings errs [CHR 0x0A, CHR '' '', CHR '' '']))
                  else Inr \<lparr>Pkg = pkg, RFset = Fset pkg\<rparr>))"

text \<open>A package with a type error, for the examples.\<close>

definition failingPkg :: GoPackage where
  "failingPkg = (mkPackage ''example.com/failing'' 9 [] [])
     \<lparr>Errors := [''failing.go:3:5: undefined: x'']\<rparr>"

section \<open>SHA-256\<close>

text \<open>
  \<open>crypto/sha256\<close> of the Go standard library computes the SHA-256 of FIPS 180-4; the
  functions below follow the standard: padding, the message schedule, the 64 rounds of
  the compression function on 32-bit words, and the digest as 32 bytes, big-endian.
\<close>

type_synonym byte = "8 word"
type_synonym word32 = "32 word"

definition rotr :: "nat \<Rightarrow> word32 \<Rightarrow> word32" where
  "rotr n x = drop_bit n x OR push_bit (32 - n) x"

definition Ch :: "word32 \<Rightarrow> word32 \<Rightarrow> word32 \<Rightarrow> word32" where
  "Ch x y z = (x AND y) XOR (NOT x AND z)"

definition Maj :: "word32 \<Rightarrow> word32 \<Rightarrow> word32 \<Rightarrow> word32" where
  "Maj x y z = (x AND y) XOR (x AND z) XOR (y AND z)"

definition bigSigma0 :: "word32 \<Rightarrow> word32" where
  "bigSigma0 x = rotr 2 x XOR rotr 13 x XOR rotr 22 x"

definition bigSigma1 :: "word32 \<Rightarrow> word32" where
  "bigSigma1 x = rotr 6 x XOR rotr 11 x XOR rotr 25 x"

definition smallSigma0 :: "word32 \<Rightarrow> word32" where
  "smallSigma0 x = rotr 7 x XOR rotr 18 x XOR drop_bit 3 x"

definition smallSigma1 :: "word32 \<Rightarrow> word32" where
  "smallSigma1 x = rotr 17 x XOR rotr 19 x XOR drop_bit 10 x"

text \<open>The 64 round constants and the initial hash value, in decimal.\<close>

definition K256 :: "word32 list" where
  "K256 =
    [1116352408, 1899447441, 3049323471, 3921009573, 961987163, 1508970993,
     2453635748, 2870763221, 3624381080, 310598401, 607225278, 1426881987,
     1925078388, 2162078206, 2614888103, 3248222580, 3835390401, 4022224774,
     264347078, 604807628, 770255983, 1249150122, 1555081692, 1996064986,
     2554220882, 2821834349, 2952996808, 3210313671, 3336571891, 3584528711,
     113926993, 338241895, 666307205, 773529912, 1294757372, 1396182291,
     1695183700, 1986661051, 2177026350, 2456956037, 2730485921, 2820302411,
     3259730800, 3345764771, 3516065817, 3600352804, 4094571909, 275423344,
     430227734, 506948616, 659060556, 883997877, 958139571, 1322822218,
     1537002063, 1747873779, 1955562222, 2024104815, 2227730452, 2361852424,
     2428436474, 2756734187, 3204031479, 3329325298]"

type_synonym hstate = "word32 \<times> word32 \<times> word32 \<times> word32 \<times> word32 \<times> word32 \<times> word32 \<times> word32"

definition initialHash :: hstate where
  "initialHash =
     (1779033703, 3144134277, 1013904242, 2773480762,
      1359893119, 2600822924, 528734635, 1541459225)"

text \<open>Padding: the byte 0x80, zero bytes up to 56 modulo 64, the bit length in 8 bytes.\<close>

definition word64Bytes :: "64 word \<Rightarrow> byte list" where
  "word64Bytes x = map (\<lambda>i. ucast (drop_bit (8 * i) x)) [7, 6, 5, 4, 3, 2, 1, 0]"

definition padMessage :: "byte list \<Rightarrow> byte list" where
  "padMessage msg =
     msg @ [0x80] @ replicate ((64 - (length msg + 9) mod 64) mod 64) 0
       @ word64Bytes (of_nat (8 * length msg))"

definition wordOfBytes :: "byte list \<Rightarrow> word32" where
  "wordOfBytes bs = foldl (\<lambda>acc b. push_bit 8 acc OR ucast b) 0 bs"

definition word32Bytes :: "word32 \<Rightarrow> byte list" where
  "word32Bytes x = map (\<lambda>i. ucast (drop_bit (8 * i) x)) [3, 2, 1, 0]"

text \<open>The sixteen words of a 64-byte block.\<close>

definition blockWords :: "byte list \<Rightarrow> word32 list" where
  "blockWords block = map (\<lambda>i. wordOfBytes (take 4 (drop (4 * i) block))) [0..<16]"

text \<open>The message schedule: words 16 to 63 from the sixteen words of the block.\<close>

definition scheduleStep :: "word32 list \<Rightarrow> word32 list" where
  "scheduleStep w =
     (let n = length w
      in w @ [smallSigma1 (w ! (n - 2)) + w ! (n - 7) + smallSigma0 (w ! (n - 15)) + w ! (n - 16)])"

definition messageSchedule :: "word32 list \<Rightarrow> word32 list" where
  "messageSchedule ws = (scheduleStep ^^ 48) ws"

fun sha256Round :: "word32 \<times> word32 \<Rightarrow> hstate \<Rightarrow> hstate" where
  "sha256Round (k, w) (a, b, c, d, e, f, g, h) =
     (let t1 = h + bigSigma1 e + Ch e f g + k + w;
          t2 = bigSigma0 a + Maj a b c
      in (t1 + t2, a, b, c, d + t1, e, f, g))"

fun addHash :: "hstate \<Rightarrow> hstate \<Rightarrow> hstate" where
  "addHash (a, b, c, d, e, f, g, h) (a', b', c', d', e', f', g', h') =
     (a + a', b + b', c + c', d + d', e + e', f + f', g + g', h + h')"

definition compressBlock :: "hstate \<Rightarrow> byte list \<Rightarrow> hstate" where
  "compressBlock hs block =
     addHash hs (fold sha256Round (zip K256 (messageSchedule (blockWords block))) hs)"

fun compressBlocks :: "nat \<Rightarrow> hstate \<Rightarrow> byte list \<Rightarrow> hstate" where
  "compressBlocks 0 hs bytes = hs"
| "compressBlocks (Suc n) hs bytes = compressBlocks n (compressBlock hs (take 64 bytes)) (drop 64 bytes)"

fun hashBytes :: "hstate \<Rightarrow> byte list" where
  "hashBytes (a, b, c, d, e, f, g, h) = concat (map word32Bytes [a, b, c, d, e, f, g, h])"

definition Sum256 :: "byte list \<Rightarrow> byte list" where
  "Sum256 msg =
     (let padded = padMessage msg
      in hashBytes (compressBlocks (length padded div 64) initialHash padded))"

section \<open>Stable identifiers\<close>

text \<open>\<open>[]byte(s)\<close>: the bytes of a string.\<close>

definition bytesOf :: "string \<Rightarrow> byte list" where
  "bytesOf s = map (\<lambda>c. of_nat (of_char c)) s"

text \<open>The verb \<open>%x\<close> on a byte slice: two lower-case hexadecimal digits for each byte.\<close>

definition hexDigit :: "nat \<Rightarrow> char" where
  "hexDigit d = ''0123456789abcdef'' ! d"

definition hexBytes :: "byte list \<Rightarrow> string" where
  "hexBytes bs = concat (map (\<lambda>b. [hexDigit (unat b div 16), hexDigit (unat b mod 16)]) bs)"

definition GenerateID :: "string \<Rightarrow> string \<Rightarrow> string \<Rightarrow> string \<Rightarrow> string" where
  "GenerateID pkg function effectType location =
     (let input = pkg @ '':'' @ function @ '':'' @ effectType @ '':'' @ location;
          hash = Sum256 (bytesOf input)
      in ''se-'' @ hexBytes (take 4 hash))"

section \<open>Command line: the analyze command\<close>

text \<open>
  The verb \<open>%q\<close> of package fmt on a string is \<open>strconv.Quote\<close>: the text between double
  quotes, with \<open>"\<close> and \<open>\\<close> escaped by a backslash, printable ASCII kept, and the other
  ASCII bytes written as \<open>\a \b \f \n \r \t \v\<close> or \<open>\xNN\<close>. From the first byte at or
  above 0x80 on, the result depends on the UTF-8 decoder and the Unicode tables of the
  standard library: the quoting of that remainder is a parameter.
\<close>

definition hex2 :: "nat \<Rightarrow> string" where
  "hex2 n = [hexDigit (n div 16), hexDigit (n mod 16)]"

definition quoteASCII :: "char \<Rightarrow> string" where
  "quoteASCII c =
     (let n = (of_char c :: nat) in
      if c = CHR 0x22 \<or> c = CHR 0x5C then [CHR 0x5C, c]
      else if 0x20 \<le> n \<and> n < 0x7F then [c]
      else if n = 7 then [CHR 0x5C, CHR ''a'']
      else if n = 8 then [CHR 0x5C, CHR ''b'']
      else if n = 12 then [CHR 0x5C, CHR ''f'']
      else if n = 10 then [CHR 0x5C, CHR ''n'']
      else if n = 13 then [CHR 0x5C, CHR ''r'']
      else if n = 9 then [CHR 0x5C, CHR ''t'']
      else if n = 11 then [CHR 0x5C, CHR ''v'']
      else [CHR 0x5C, CHR ''x''] @ hex2 n)"

fun quoteBody :: "(string \<Rightarrow> string) \<Rightarrow> string \<Rightarrow> string" where
  "quoteBody nonASCII [] = []"
| "quoteBody nonASCII (c # rest) =
     (if (of_char c :: nat) < 0x80 then quoteASCII c @ quoteBody nonASCII rest
      else nonASCII (c # rest))"

definition goQuote :: "(string \<Rightarrow> string) \<Rightarrow> string \<Rightarrow> string" where
  "goQuote nonASCII s = [CHR 0x22] @ quoteBody nonASCII s @ [CHR 0x22]"

text \<open>
  Package analysis and package report are not among the sources:
  \<open>analysis.LoadAndAnalyze\<close> and the two report writers are parameters. A writer gives
  the text it writes to standard output and the error it returns.
\<close>

record AnalysisOptions =
  IncludeUnexported :: bool
  FunctionFilter :: string

record Env =
  LoadAndAnalyze :: "string \<Rightarrow> AnalysisOptions \<Rightarrow> string + AnalysisResult list"
  WriteJSON :: "AnalysisResult list \<Rightarrow> string \<times> string option"
  WriteText :: "AnalysisResult list \<Rightarrow> string \<times> string option"
  QuoteNonASCII :: "string \<Rightarrow> string"

text \<open>What a run leaves behind: the two output streams and the error returned, by its message.\<close>

record Outcome =
  Stdout :: string
  Stderr :: string
  Err :: "string option"

text \<open>
  \<open>RunE\<close> of \<open>newAnalyzeCmd\<close>; \<open>function\<close>, \<open>format\<close> and \<open>includeUnexported\<close> are the flag
  values and \<open>pkgPath\<close> is \<open>args[0]\<close> (\<open>cobra.ExactArgs(1)\<close> has checked that there is one).
\<close>

definition analyzeRunE :: "Env \<Rightarrow> string \<Rightarrow> string \<Rightarrow> bool \<Rightarrow> string \<Rightarrow> Outcome" where
  "analyzeRunE env function format includeUnexported pkgPath =
     (if format \<noteq> ''text'' \<and> format \<noteq> ''json''
      then \<lparr>Stdout = '''', Stderr = '''',
            Err = Some (''invalid format '' @ goQuote (QuoteNonASCII env) format
                        @ '': must be 'text' or 'json'' @ [CHR 0x27])\<rparr>
      else
        let opts = \<lparr>IncludeUnexported = includeUnexported, FunctionFilter = function\<rparr> in
        case LoadAndAnalyze env pkgPath opts of
          Inl err \<Rightarrow> \<lparr>Stdout = '''', Stderr = '''', Err = Some err\<rparr>
        | Inr results \<Rightarrow>
            if length results = 0
            then
              if function \<noteq> ''''
              then \<lparr>Stdout = '''', Stderr = '''',
                    Err = Some (''function '' @ goQuote (QuoteNonASCII env) function
                                @ '' not found in package ''
                                @ goQuote (QuoteNonASCII env) pkgPath)\<rparr>
              else \<lparr>Stdout = '''',
                    Stderr = ''no functions found to analyze'' @ [CHR 0x0A], Err = None\<rparr>
            else
              if format = ''json''
              then (case WriteJSON env results of
                      (out, werr) \<Rightarrow> \<lparr>Stdout = out, Stderr = '''', Err = werr\<rparr>)
              else (case WriteText env results of
                      (out, werr) \<Rightarrow> \<lparr>Stdout = out, Stderr = '''', Err = werr\<rparr>))"

text \<open>
  \<open>main\<close>: an error of the command is printed on standard error and the process exits
  with status 1; otherwise \<open>main\<close> returns and the status is 0. (What cobra itself prints
  is not modelled.)
\<close>

definition mainAnalyze :: "Env \<Rightarrow> string \<Rightarrow> string \<Rightarrow> bool \<Rightarrow> string \<Rightarrow> Outcome \<times> nat" where
  "mainAnalyze env function format includeUnexported pkgPath =
     (let r = analyzeRunE env function format includeUnexported pkgPath in
      case Err r of
        Some err \<Rightarrow> (r\<lparr>Stderr := Stderr r @ err @ [CHR 0x0A]\<rparr>, 1)
      | None \<Rightarrow> (r, 0))"

text \<open>\<open>strings.HasPrefix\<close> and \<open>strings.Contains\<close>, to say that a text occurs in a message.\<close>

fun hasPrefix :: "string \<Rightarrow> string \<Rightarrow> bool" where
  "hasPrefix s [] = True"
| "hasPrefix [] (p # ps) = False"
| "hasPrefix (c # cs) (p # ps) = (c = p \<and> hasPrefix cs ps)"

fun containsStr :: "string \<Rightarrow> string \<Rightarrow> bool" where
  "containsStr [] sub = (sub = [])"
| "containsStr (c # cs) sub = (hasPrefix (c # cs) sub \<or> containsStr cs sub)"

text \<open>Printable ASCII other than the double quote and the backslash.\<close>

definition plainText :: "string \<Rightarrow> bool" where
  "plainText s = list_all (\<lambda>c. 0x20 \<le> (of_char c :: nat) \<and> (of_char c :: nat) < 0x7F
     \<and> c \<noteq> CHR 0x22 \<and> c \<noteq> CHR 0x5C) s"

text \<open>An environment for the examples: no function matches, every package loads.\<close>

definition emptyEnv :: Env where
  "emptyEnv =
     \<lparr>LoadAndAnalyze = (\<lambda>pkgPath opts. Inr []),
      WriteJSON = (\<lambda>results. ('''', None)),
      WriteText = (\<lambda>results. ('''', None)),
      QuoteNonASCII = (\<lambda>s. s)\<rparr>"

section \<open>Loading the configuration\<close>

text \<open>
  \<open>config.Load\<close>. The file system, \<open>yaml.Unmarshal\<close> (gopkg.in/yaml.v3) and
  \<open>time.ParseDuration\<close> are outside the repository: what \<open>os.ReadFile\<close> finds at a path,
  what the decoder makes of the bytes and of the configuration it is given to fill, and
  what a duration string parses to are parameters. The function is named \<open>ConfigLoad\<close>
  here, \<open>Load\<close> being the loader's.
\<close>

datatype ReadResult = NotExist | ReadFailed string | FileData string

record ConfigEnv =
  ReadFile :: "string \<Rightarrow> ReadResult"
  YamlUnmarshal :: "string \<Rightarrow> GazeConfig \<Rightarrow> string + GazeConfig"
  ParseDuration :: "string \<Rightarrow> string + int"

datatype ConfigError =
    ReadingConfig string string
  | ParsingConfig string string
  | ParsingTimeout string string

definition timeoutStrOf :: "GazeConfig \<Rightarrow> string" where
  "timeoutStrOf cfg = TimeoutStr (CDocScan (GClassification cfg))"

definition setTimeout :: "int \<Rightarrow> GazeConfig \<Rightarrow> GazeConfig" where
  "setTimeout d cfg =
     cfg\<lparr>GClassification :=
       (GClassification cfg)\<lparr>CDocScan :=
         (CDocScan (GClassification cfg))\<lparr>Timeout := d\<rparr>\<rparr>\<rparr>"

definition ConfigLoad :: "ConfigEnv \<Rightarrow> string \<Rightarrow> ConfigError + GazeConfig" where
  "ConfigLoad env path =
     (case ReadFile env path of
        NotExist \<Rightarrow> Inr DefaultConfig
      | ReadFailed err \<Rightarrow> Inl (ReadingConfig path err)
      | FileData data \<Rightarrow>
          (case YamlUnmarshal env data DefaultConfig of
             Inl err \<Rightarrow> Inl (ParsingConfig path err)
           | Inr cfg \<Rightarrow>
               if timeoutStrOf cfg \<noteq> ''''
               then (case ParseDuration env (timeoutStrOf cfg) of
                       Inl err \<Rightarrow> Inl (ParsingTimeout (timeoutStrOf cfg) err)
                     | Inr d \<Rightarrow> Inr (setTimeout d cfg))
               else Inr cfg))"

text \<open>
  An environment for the examples, with what the two libraries do on four files:
  \<open>empty.yaml\<close> is empty and leaves the configuration as it is; \<open>valid.yaml\<close> sets the
  thresholds 85 and 45, the timeout "15s" and two exclude patterns; \<open>notimeout.yaml\<close>
  sets \<open>doc_scan.timeout\<close> to the empty string; \<open>broken.yaml\<close> is not YAML. Of the
  duration strings, "30s" and "15s" parse, and the empty string does not
  (\<open>time: invalid duration ""\<close>).
\<close>

definition exampleUnmarshal :: "string \<Rightarrow> GazeConfig \<Rightarrow> string + GazeConfig" where
  "exampleUnmarshal data cfg =
     (if data = '''' then Inr cfg
      else if data = ''valid'' then
        Inr (cfg\<lparr>GClassification :=
          \<lparr>CThresholds = \<lparr>TContractual = 85, TIncidental = 45\<rparr>,
           CDocScan = (CDocScan (GClassification cfg))
             \<lparr>Exclude := [''vendor/**'', ''docs/**''], TimeoutStr := ''15s''\<rparr>\<rparr>\<rparr>)
      else if data = ''timeout-empty'' then
        Inr (cfg\<lparr>GClassification :=
          (GClassification cfg)\<lparr>CDocScan :=
            (CDocScan (GClassification cfg))\<lparr>TimeoutStr := ''''\<rparr>\<rparr>\<rparr>)
      else Inl ''yaml: did not find expected key'')"

definition exampleConfigEnv :: ConfigEnv where
  "exampleConfigEnv =
     \<lparr>ReadFile = (\<lambda>path.
        if path = ''empty.yaml'' then FileData ''''
        else if path = ''valid.yaml'' then FileData ''valid''
        else if path = ''notimeout.yaml'' then FileData ''timeout-empty''
        else if path = ''broken.yaml'' then FileData ''{''
        else NotExist),
      YamlUnmarshal = exampleUnmarshal,
      ParseDuration = (\<lambda>s.
        if s = ''30s'' then Inr (30 * Second)
        else if s = ''15s'' then Inr (15 * Second)
        else Inl (''time: invalid duration '' @ goQuote (\<lambda>r. r) s))\<rparr>"

text \<open>What the decoder of the examples makes of \<open>valid.yaml\<close>.\<close>

definition validDecoded :: GazeConfig where
  "validDecoded =
     \<lparr>GClassification =
        \<lparr>CThresholds = \<lparr>TContractual = 85, TIncidental = 45\<rparr>,
         CDocScan = \<lparr>Exclude = [''vendor/**'', ''docs/**''], Include = [],
           Timeout = 30 * Second, TimeoutStr = ''15s''\<rparr>\<rparr>\<rparr>"

section \<open>Properties of the score composer\<close>

lemma thresholdsOf_None:
  "thresholdsOf None = \<lparr>TContractual = 80, TIncidental = 50\<rparr>"
  by (simp add: thresholdsOf_def DefaultConfig_def)

lemma thresholdsOf_withThresholds:
  "thresholdsOf (Some (withThresholds c i)) = \<lparr>TContractual = c, TIncidental = i\<rparr>"
  by (simp add: thresholdsOf_def withThresholds_def)

lemma rawScore_Nil: "rawScore [] = 50"
  by (simp add: rawScore_def hasContradiction_def baseConfidence_def)

lemma hasContradiction_iff:
  "hasContradiction signals \<longleftrightarrow>
     (\<exists>s \<in> set signals. 0 < Weight s) \<and> (\<exists>s \<in> set signals. Weight s < 0)"
  by (simp add: hasContradiction_def list_ex_iff)

lemma clampScore_mono: "a \<le> b \<Longrightarrow> clampScore a \<le> clampScore b"
  by (simp add: clampScore_def)

lemma clampScore_range: "0 \<le> clampScore a \<and> clampScore a \<le> 100"
  by (simp add: clampScore_def)

lemma Confidence_ComputeScore: "Confidence (ComputeScore signals cfg) = clampScore (rawScore signals)"
  by (simp add: ComputeScore_def Let_def)

lemma Signals_ComputeScore: "Signals (ComputeScore signals cfg) = signals"
  by (simp add: ComputeScore_def Let_def)

text \<open>
  The test scenarios of the spec (section 8) and of the classify tests: 90 and contractual,
  40 and incidental, the contradiction 50 + 30 - 10 - 20 = 50, and the two clamps.
\<close>

lemma ComputeScore_scenarios:
  "Confidence (ComputeScore [sig ''interface'' 30, sig ''visibility'' 10] None) = 90"
  "Label (ComputeScore [sig ''interface'' 30, sig ''visibility'' 10] None) = Contractual"
  "Confidence (ComputeScore [sig ''naming'' (- 10)] None) = 40"
  "Label (ComputeScore [sig ''naming'' (- 10)] None) = Incidental"
  "Confidence (ComputeScore [sig ''interface'' 30, sig ''naming'' (- 10)] None) = 50"
  "Label (ComputeScore [sig ''interface'' 30, sig ''naming'' (- 10)] None) = Ambiguous"
  "Confidence (ComputeScore [sig ''naming'' (- 10), sig ''godoc'' (- 15), sig ''another'' (- 30)] None) = 0"
  "Confidence (ComputeScore [sig ''interface'' 30, sig ''visibility'' 20, sig ''caller'' 15,
     sig ''naming'' 10, sig ''godoc'' 15] None) = 100"
  by (simp_all add: ComputeScore_def rawScore_def hasContradiction_def clampScore_def labelOf_def
      thresholdsOf_None sig_def baseConfidence_def contradictionPenalty_def)

text \<open>
  C1, as the claim states its last part: with every configuration the empty signal list is
  labelled ambiguous. It is not: with the thresholds contractual = 50 and incidental = 40
  the base confidence 50 reaches the contractual threshold.
\<close>

theorem ComputeScore_empty_label_counterexample:
  "Confidence (ComputeScore [] (Some (withThresholds 50 40))) = 50 \<and>
   Label (ComputeScore [] (Some (withThresholds 50 40))) = Contractual \<and>
   Label (ComputeScore [] (Some (withThresholds 50 40))) \<noteq> Ambiguous"
  by (simp add: ComputeScore_def rawScore_Nil clampScore_def labelOf_def
      thresholdsOf_withThresholds)

text \<open>
  C1, amended. For every signal list and every configuration (nil stands for the defaults
  80 and 50) the confidence is 50 plus the sum of the weights, minus 20 exactly when the
  list holds both a strictly positive and a strictly negative weight, clamped to [0, 100];
  the label is contractual when the confidence reaches the contractual threshold,
  incidental when it is below the incidental threshold, ambiguous otherwise. The empty
  list has confidence 50 with every configuration; its label is ambiguous whenever the
  incidental threshold is at most 50 and the contractual threshold is above 50, as with
  the default thresholds.
\<close>

theorem ComputeScore_spec:
  "Confidence (ComputeScore signals cfg)
     = max 0 (min 100 (50 + sum_list (map Weight signals)
         - (if (\<exists>s \<in> set signals. 0 < Weight s) \<and> (\<exists>s \<in> set signals. Weight s < 0)
            then 20 else 0)))
    \<and> (TContractual (thresholdsOf cfg) \<le> Confidence (ComputeScore signals cfg)
         \<longrightarrow> Label (ComputeScore signals cfg) = Contractual)
    \<and> (Confidence (ComputeScore signals cfg) < TContractual (thresholdsOf cfg)
         \<and> Confidence (ComputeScore signals cfg) < TIncidental (thresholdsOf cfg)
         \<longrightarrow> Label (ComputeScore signals cfg) = Incidental)
    \<and> (Confidence (ComputeScore signals cfg) < TContractual (thresholdsOf cfg)
         \<and> TIncidental (thresholdsOf cfg) \<le> Confidence (ComputeScore signals cfg)
         \<longrightarrow> Label (ComputeScore signals cfg) = Ambiguous)
    \<and> thresholdsOf None = \<lparr>TContractual = 80, TIncidental = 50\<rparr>
    \<and> Confidence (ComputeScore [] cfg) = 50
    \<and> (TIncidental (thresholdsOf cfg) \<le> 50 \<and> 50 < TContractual (thresholdsOf cfg)
         \<longrightarrow> Label (ComputeScore [] cfg) = Ambiguous)
    \<and> Label (ComputeScore [] None) = Ambiguous"
proof -
  have conf: "Confidence (ComputeScore signals cfg)
     = max 0 (min 100 (50 + sum_list (map Weight signals)
         - (if (\<exists>s \<in> set signals. 0 < Weight s) \<and> (\<exists>s \<in> set signals. Weight s < 0)
            then 20 else 0)))"
    by (simp add: Confidence_ComputeScore rawScore_def hasContradiction_iff baseConfidence_def
        contradictionPenalty_def Let_def clampScore_def)
  have lab: "Label (ComputeScore xs c) = labelOf (thresholdsOf c) (Confidence (ComputeScore xs c))"
    for xs c
    by (simp add: ComputeScore_def Let_def)
  have empty: "Confidence (ComputeScore [] c) = 50" for c
    by (simp add: Confidence_ComputeScore rawScore_Nil clampScore_def)
  have l1: "TContractual (thresholdsOf cfg) \<le> Confidence (ComputeScore signals cfg)
         \<longrightarrow> Label (ComputeScore signals cfg) = Contractual"
    by (simp add: lab labelOf_def)
  have l2: "Confidence (ComputeScore signals cfg) < TContractual (thresholdsOf cfg)
         \<and> Confidence (ComputeScore signals cfg) < TIncidental (thresholdsOf cfg)
         \<longrightarrow> Label (ComputeScore signals cfg) = Incidental"
    by (simp add: lab labelOf_def)
  have l3: "Confidence (ComputeScore signals cfg) < TContractual (thresholdsOf cfg)
         \<and> TIncidental (thresholdsOf cfg) \<le> Confidence (ComputeScore signals cfg)
         \<longrightarrow> Label (ComputeScore signals cfg) = Ambiguous"
    by (simp add: lab labelOf_def)
  have e1: "TIncidental (thresholdsOf cfg) \<le> 50 \<and> 50 < TContractual (thresholdsOf cfg)
         \<longrightarrow> Label (ComputeScore [] cfg) = Ambiguous"
    by (simp add: lab empty labelOf_def)
  have e2: "Label (ComputeScore [] None) = Ambiguous"
    by (simp add: lab empty labelOf_def thresholdsOf_None)
  from conf l1 l2 l3 thresholdsOf_None empty e1 e2 show ?thesis
    by blast
qed

theorem ComputeScore_spec_witness:
  "Confidence (ComputeScore [sig ''interface'' 30, sig ''naming'' (- 10)] None) = 50
   \<and> Label (ComputeScore [sig ''interface'' 30, sig ''naming'' (- 10)] None) = Ambiguous
   \<and> Label (ComputeScore [sig ''interface'' 30, sig ''visibility'' 10] None) = Contractual
   \<and> Label (ComputeScore [sig ''naming'' (- 10)] None) = Incidental
   \<and> Label (ComputeScore [] (Some (withThresholds 90 40))) = Ambiguous"
proof -
  have a: "Label (ComputeScore [sig ''interface'' 30, sig ''naming'' (- 10)] None) = Ambiguous"
    and b: "Confidence (ComputeScore [sig ''interface'' 30, sig ''naming'' (- 10)] None) = 50"
    using ComputeScore_spec [where cfg = None
        and signals = "[sig ''interface'' 30, sig ''naming'' (- 10)]"]
    by (simp_all add: thresholdsOf_None sig_def)
  have c: "Label (ComputeScore [sig ''interface'' 30, sig ''visibility'' 10] None) = Contractual"
    using ComputeScore_spec [where cfg = None
        and signals = "[sig ''interface'' 30, sig ''visibility'' 10]"]
    by (simp add: thresholdsOf_None sig_def)
  have d: "Label (ComputeScore [sig ''naming'' (- 10)] None) = Incidental"
    using ComputeScore_spec [where cfg = None and signals = "[sig ''naming'' (- 10)]"]
    by (simp add: thresholdsOf_None sig_def)
  have e: "Label (ComputeScore [] (Some (withThresholds 90 40))) = Ambiguous"
    using ComputeScore_spec [where cfg = "Some (withThresholds 90 40)" and signals = "[]"]
    by (simp add: thresholdsOf_withThresholds)
  from a b c d e show ?thesis by simp
qed

text \<open>
  C2, as the claim states its first half: removing a strictly positive signal never
  increases the confidence. With the signals caller +5 and naming -10 the contradiction
  penalty applies, 50 + 5 - 10 - 20 = 25; without the caller signal no positive weight is
  left, the penalty goes, and the confidence rises to 50 - 10 = 40.
\<close>

theorem ComputeScore_remove_positive_counterexample:
  "0 < Weight (sig ''caller'' 5)
   \<and> Confidence (ComputeScore [sig ''caller'' 5, sig ''naming'' (- 10)] None) = 25
   \<and> Confidence (ComputeScore [sig ''naming'' (- 10)] None) = 40"
  by (simp add: ComputeScore_def rawScore_def hasContradiction_def clampScore_def sig_def
      baseConfidence_def contradictionPenalty_def)

lemma rawScore_remove_negative:
  assumes "Weight s < 0"
  shows "rawScore (xs @ s # ys) \<le> rawScore (xs @ ys)"
  using assms
  by (auto simp add: rawScore_def hasContradiction_iff baseConfidence_def
      contradictionPenalty_def Let_def)

lemma rawScore_remove_positive:
  assumes "0 < Weight s"
    and "(\<forall>t \<in> set (xs @ ys). 0 \<le> Weight t) \<or> (\<exists>t \<in> set (xs @ ys). 0 < Weight t)
       \<or> 20 \<le> Weight s"
  shows "rawScore (xs @ ys) \<le> rawScore (xs @ s # ys)"
proof (cases "hasContradiction (xs @ ys)")
  case True
  then have "hasContradiction (xs @ s # ys)"
    by (auto simp add: hasContradiction_iff)
  with True assms(1) show ?thesis
    by (simp add: rawScore_def baseConfidence_def Let_def)
next
  case False
  show ?thesis
  proof (cases "hasContradiction (xs @ s # ys)")
    case False
    with \<open>\<not> hasContradiction (xs @ ys)\<close> assms(1) show ?thesis
      by (simp add: rawScore_def baseConfidence_def Let_def)
  next
    case True
    then have neg: "\<exists>t \<in> set (xs @ ys). Weight t < 0"
      using assms(1) by (auto simp add: hasContradiction_iff)
    with \<open>\<not> hasContradiction (xs @ ys)\<close> have "\<not> (\<exists>t \<in> set (xs @ ys). 0 < Weight t)"
      unfolding hasContradiction_iff by blast
    with neg assms(2) have "20 \<le> Weight s"
      by force
    with True \<open>\<not> hasContradiction (xs @ ys)\<close> show ?thesis
      by (simp add: rawScore_def baseConfidence_def contradictionPenalty_def Let_def)
  qed
qed

text \<open>
  C2, amended. Removing one strictly negative signal never decreases the confidence.
  Removing one strictly positive signal never increases the confidence when the rest of
  the list has no strictly negative weight, or still has a strictly positive weight, or
  the removed weight is at least 20 (the contradiction penalty); outside these cases the
  removal lifts the penalty and the confidence can rise.
\<close>

theorem ComputeScore_remove_signal:
  "(Weight s < 0 \<longrightarrow>
      Confidence (ComputeScore (xs @ s # ys) cfg) \<le> Confidence (ComputeScore (xs @ ys) cfg))
   \<and> (0 < Weight s
        \<and> ((\<forall>t \<in> set (xs @ ys). 0 \<le> Weight t) \<or> (\<exists>t \<in> set (xs @ ys). 0 < Weight t)
           \<or> 20 \<le> Weight s) \<longrightarrow>
      Confidence (ComputeScore (xs @ ys) cfg) \<le> Confidence (ComputeScore (xs @ s # ys) cfg))"
  using rawScore_remove_negative [of s xs ys] rawScore_remove_positive [of s xs ys]
  by (simp add: Confidence_ComputeScore clampScore_mono)

theorem ComputeScore_remove_signal_witness:
  "Confidence (ComputeScore [sig ''interface'' 30, sig ''naming'' (- 10)] None)
     \<le> Confidence (ComputeScore [sig ''interface'' 30] None)
   \<and> Confidence (ComputeScore [sig ''visibility'' 10] None)
     \<le> Confidence (ComputeScore [sig ''interface'' 30, sig ''visibility'' 10] None)
   \<and> Confidence (ComputeScore [sig ''naming'' (- 10)] None)
     \<le> Confidence (ComputeScore [sig ''interface'' 30, sig ''naming'' (- 10)] None)"
proof -
  have a: "Confidence (ComputeScore [sig ''interface'' 30, sig ''naming'' (- 10)] None)
     \<le> Confidence (ComputeScore [sig ''interface'' 30] None)"
    using ComputeScore_remove_signal [where s = "sig ''naming'' (- 10)"
        and xs = "[sig ''interface'' 30]" and ys = "[]" and cfg = None]
    by (simp add: sig_def)
  have b: "Confidence (ComputeScore [sig ''visibility'' 10] None)
     \<le> Confidence (ComputeScore [sig ''interface'' 30, sig ''visibility'' 10] None)"
    using ComputeScore_remove_signal [where s = "sig ''interface'' 30"
        and xs = "[]" and ys = "[sig ''visibility'' 10]" and cfg = None]
    by (simp add: sig_def)
  have c: "Confidence (ComputeScore [sig ''naming'' (- 10)] None)
     \<le> Confidence (ComputeScore [sig ''interface'' 30, sig ''naming'' (- 10)] None)"
    using ComputeScore_remove_signal [where s = "sig ''interface'' 30"
        and xs = "[]" and ys = "[sig ''naming'' (- 10)]" and cfg = None]
    by (simp add: sig_def)
  from a b c show ?thesis by simp
qed

section \<open>Properties of the caller signal\<close>

lemma usesObject_iff:
  "usesObject uses funcObj \<longleftrightarrow> (\<exists>u \<in> set uses. oaddr (snd u) = oaddr funcObj)"
  by (induction uses funcObj rule: usesObject.induct) auto

lemma countCallersLoop_eq:
  "countCallersLoop funcObj pkgs count
     = count + length (filter (otherPackageReferences funcObj) pkgs)"
proof (induction pkgs arbitrary: count)
  case Nil
  show ?case by simp
next
  case (Cons pkg pkgs)
  show ?case
    by (cases "PTypesInfo pkg")
      (simp_all add: Cons.IH otherPackageReferences_def usesObject_iff)
qed

lemma countCallers_eq:
  "countCallers funcObj pkgs = length (filter (otherPackageReferences funcObj) pkgs)"
  by (simp add: countCallers_def countCallersLoop_eq)

text \<open>
  C4. \<open>AnalyzeCallerSignal\<close> returns the zero signal for a nil function object and when no
  other package of the list references the object; otherwise a signal with source
  "caller" and weight 5 for one referencing package, 10 for two or three, 15 for four or
  more. The count is the number of packages of the module list, each counted once
  however many of its uses denote the object, that have a \<open>Uses\<close> index, are not the
  defining package and use that very object; for a list without repetition it is the
  number of distinct such packages.
\<close>

theorem AnalyzeCallerSignal_spec:
  "AnalyzeCallerSignal None effectType pkgs = zeroSignal
   \<and> (length (filter (otherPackageReferences funcObj) pkgs) = 0 \<longrightarrow>
        AnalyzeCallerSignal (Some funcObj) effectType pkgs = zeroSignal)
   \<and> (0 < length (filter (otherPackageReferences funcObj) pkgs) \<longrightarrow>
        Source (AnalyzeCallerSignal (Some funcObj) effectType pkgs) = ''caller'')
   \<and> (length (filter (otherPackageReferences funcObj) pkgs) = 1 \<longrightarrow>
        Weight (AnalyzeCallerSignal (Some funcObj) effectType pkgs) = 5)
   \<and> (length (filter (otherPackageReferences funcObj) pkgs) \<in> {2, 3} \<longrightarrow>
        Weight (AnalyzeCallerSignal (Some funcObj) effectType pkgs) = 10)
   \<and> (4 \<le> length (filter (otherPackageReferences funcObj) pkgs) \<longrightarrow>
        Weight (AnalyzeCallerSignal (Some funcObj) effectType pkgs) = 15)
   \<and> (distinct pkgs \<longrightarrow>
        length (filter (otherPackageReferences funcObj) pkgs)
          = card {pkg \<in> set pkgs. otherPackageReferences funcObj pkg})"
proof -
  have d: "distinct pkgs \<longrightarrow>
        length (filter (otherPackageReferences funcObj) pkgs)
          = card {pkg \<in> set pkgs. otherPackageReferences funcObj pkg}"
  proof
    assume "distinct pkgs"
    then have "distinct (filter (otherPackageReferences funcObj) pkgs)"
      by simp
    then have "length (filter (otherPackageReferences funcObj) pkgs)
        = card (set (filter (otherPackageReferences funcObj) pkgs))"
      by (rule distinct_card [symmetric])
    then show "length (filter (otherPackageReferences funcObj) pkgs)
          = card {pkg \<in> set pkgs. otherPackageReferences funcObj pkg}"
      by simp
  qed
  have rest: "AnalyzeCallerSignal None effectType pkgs = zeroSignal
   \<and> (length (filter (otherPackageReferences funcObj) pkgs) = 0 \<longrightarrow>
        AnalyzeCallerSignal (Some funcObj) effectType pkgs = zeroSignal)
   \<and> (0 < length (filter (otherPackageReferences funcObj) pkgs) \<longrightarrow>
        Source (AnalyzeCallerSignal (Some funcObj) effectType pkgs) = ''caller'')
   \<and> (length (filter (otherPackageReferences funcObj) pkgs) = 1 \<longrightarrow>
        Weight (AnalyzeCallerSignal (Some funcObj) effectType pkgs) = 5)
   \<and> (length (filter (otherPackageReferences funcObj) pkgs) \<in> {2, 3} \<longrightarrow>
        Weight (AnalyzeCallerSignal (Some funcObj) effectType pkgs) = 10)
   \<and> (4 \<le> length (filter (otherPackageReferences funcObj) pkgs) \<longrightarrow>
        Weight (AnalyzeCallerSignal (Some funcObj) effectType pkgs) = 15)"
    by (auto simp add: AnalyzeCallerSignal_def countCallers_eq Let_def maxCallerWeight_def)
  from rest d show ?thesis by blast
qed

lemmas example_module =
  modulePkgs_def storePkg_def apiPkg_def cliPkg_def otherPkg_def brokenPkg_def mkPackage_def
  saveObj_def otherSaveObj_def

theorem AnalyzeCallerSignal_spec_witness:
  "AnalyzeCallerSignal None ''ReturnValue'' modulePkgs = zeroSignal
   \<and> AnalyzeCallerSignal (Some saveObj) ''ReturnValue'' [storePkg, otherPkg, brokenPkg] = zeroSignal
   \<and> Source (AnalyzeCallerSignal (Some saveObj) ''ReturnValue'' [storePkg, apiPkg]) = ''caller''
   \<and> Weight (AnalyzeCallerSignal (Some saveObj) ''ReturnValue'' [storePkg, apiPkg]) = 5
   \<and> Weight (AnalyzeCallerSignal (Some saveObj) ''ReturnValue'' modulePkgs) = 10
   \<and> Weight (AnalyzeCallerSignal (Some saveObj) ''ReturnValue''
        [apiPkg, cliPkg, mkPackage ''example.com/a'' 6 [] [(60, saveObj)],
         mkPackage ''example.com/b'' 7 [] [(70, saveObj)],
         mkPackage ''example.com/c'' 8 [] [(80, saveObj)]]) = 15
   \<and> card {pkg \<in> set modulePkgs. otherPackageReferences saveObj pkg} = 2"
proof -
  have n0: "length (filter (otherPackageReferences saveObj) [storePkg, otherPkg, brokenPkg]) = 0"
    by (simp add: otherPackageReferences_def example_module)
  have n1: "length (filter (otherPackageReferences saveObj) [storePkg, apiPkg]) = 1"
    by (simp add: otherPackageReferences_def example_module)
  have n2: "length (filter (otherPackageReferences saveObj) modulePkgs) = 2"
    by (simp add: otherPackageReferences_def example_module)
  have n5: "length (filter (otherPackageReferences saveObj)
        [apiPkg, cliPkg, mkPackage ''example.com/a'' 6 [] [(60, saveObj)],
         mkPackage ''example.com/b'' 7 [] [(70, saveObj)],
         mkPackage ''example.com/c'' 8 [] [(80, saveObj)]]) = 5"
    by (simp add: otherPackageReferences_def example_module)
  have d: "distinct modulePkgs"
    by (simp add: example_module)
  note s = AnalyzeCallerSignal_spec [where funcObj = saveObj and effectType = "''ReturnValue''"]
  have a: "AnalyzeCallerSignal None ''ReturnValue'' modulePkgs = zeroSignal"
    using s [where pkgs = modulePkgs] by simp
  have b: "AnalyzeCallerSignal (Some saveObj) ''ReturnValue'' [storePkg, otherPkg, brokenPkg]
      = zeroSignal"
    using s [where pkgs = "[storePkg, otherPkg, brokenPkg]"] unfolding n0 by simp
  have c: "Source (AnalyzeCallerSignal (Some saveObj) ''ReturnValue'' [storePkg, apiPkg]) = ''caller''
      \<and> Weight (AnalyzeCallerSignal (Some saveObj) ''ReturnValue'' [storePkg, apiPkg]) = 5"
    using s [where pkgs = "[storePkg, apiPkg]"] unfolding n1 by simp
  have e: "Weight (AnalyzeCallerSignal (Some saveObj) ''ReturnValue'' modulePkgs) = 10
      \<and> card {pkg \<in> set modulePkgs. otherPackageReferences saveObj pkg} = 2"
    using s [where pkgs = modulePkgs] d unfolding n2 by simp
  have f: "Weight (AnalyzeCallerSignal (Some saveObj) ''ReturnValue''
        [apiPkg, cliPkg, mkPackage ''example.com/a'' 6 [] [(60, saveObj)],
         mkPackage ''example.com/b'' 7 [] [(70, saveObj)],
         mkPackage ''example.com/c'' 8 [] [(80, saveObj)]]) = 15"
    using s [where pkgs = "[apiPkg, cliPkg, mkPackage ''example.com/a'' 6 [] [(60, saveObj)],
         mkPackage ''example.com/b'' 7 [] [(70, saveObj)],
         mkPackage ''example.com/c'' 8 [] [(80, saveObj)]]"] unfolding n5 by simp
  from a b c e f show ?thesis by simp
qed

section \<open>Properties of the classification engine\<close>

lemma withDefaultConfig_simps:
  "ModulePackages (withDefaultConfig opts) = ModulePackages opts"
  "TargetPkg (withDefaultConfig opts) = TargetPkg opts"
  "Verbose (withDefaultConfig opts) = Verbose opts"
  by (simp_all add: withDefaultConfig_def)

lemma classifySideEffect_filter:
  "classifySideEffect an funcName funcDecl funcObj receiverType effectType opts
     = filter (\<lambda>s. Source s \<noteq> '''')
         [AnalyzeInterfaceSignal an funcName receiverType effectType (ModulePackages opts),
          AnalyzeVisibilitySignal an funcDecl funcObj effectType,
          AnalyzeCallerSignal funcObj effectType (ModulePackages opts),
          AnalyzeNamingSignal an funcName effectType,
          AnalyzeGodocSignal an funcDecl effectType]"
  by (simp add: classifySideEffect_def appendSignal_def Let_def)

lemma classifyEffect_frame:
  "classifyEffect an opts funcName funcDecl funcObj receiverType se
     = se\<lparr>Classification :=
          Classification (classifyEffect an opts funcName funcDecl funcObj receiverType se)\<rparr>"
  by (simp add: classifyEffect_def Let_def)

lemma classifyEffect_signals:
  "\<exists>c. Classification (classifyEffect an opts funcName funcDecl funcObj receiverType se) = Some c
     \<and> Signals c =
         (if Verbose opts
          then classifySideEffect an funcName funcDecl funcObj receiverType (Type se) opts
          else map stripDetail
            (classifySideEffect an funcName funcDecl funcObj receiverType (Type se) opts))"
  by (simp add: classifyEffect_def Let_def Signals_ComputeScore)

lemma stripDetail_fields:
  "Source (stripDetail s) = Source s" "Weight (stripDetail s) = Weight s"
  "SourceFile (stripDetail s) = ''''" "Excerpt (stripDetail s) = ''''"
  "Reasoning (stripDetail s) = ''''"
  by (simp_all add: stripDetail_def)

lemma classifyEffect_stripped:
  assumes "\<not> Verbose opts"
    and "Classification (classifyEffect an opts funcName funcDecl funcObj receiverType se) = Some c"
    and "s \<in> set (Signals c)"
  shows "SourceFile s = '''' \<and> Excerpt s = '''' \<and> Reasoning s = ''''"
proof -
  from assms(1,2) have "Signals c = map stripDetail
      (Signals (ComputeScore
        (classifySideEffect an funcName funcDecl funcObj receiverType (Type se) opts)
        (Config opts)))"
    by (auto simp add: classifyEffect_def Let_def)
  with assms(3) obtain t where "s = stripDetail t"
    by auto
  then show ?thesis
    by (simp add: stripDetail_fields)
qed

lemma Classify_nth:
  assumes "i < length results"
  shows "Classify an results opts ! i =
     classifyResult an (withDefaultConfig opts) (buildFuncDeclMap (TargetPkg opts))
       (buildFuncObjMap (TargetPkg opts)) (results ! i)"
  using assms by (simp add: Classify_def Let_def withDefaultConfig_simps)

lemma classifyResult_effect_nth:
  assumes "j < length (SideEffects result)"
  shows "SideEffects (classifyResult an opts funcDecls funcObjs result) ! j =
     classifyEffect an opts (Function (RTarget result)) (funcDecls (Function (RTarget result)))
       (funcObjs (Function (RTarget result)))
       (receiverTypeOf (funcObjs (Function (RTarget result)))) (SideEffects result ! j)"
  using assms by (simp add: classifyResult_def Let_def)

lemma classifyResult_frame:
  "classifyResult an opts funcDecls funcObjs result
     = result\<lparr>SideEffects := SideEffects (classifyResult an opts funcDecls funcObjs result)\<rparr>"
  "length (SideEffects (classifyResult an opts funcDecls funcObjs result))
     = length (SideEffects result)"
  by (simp_all add: classifyResult_def Let_def)

text \<open>
  C3. \<open>Classify\<close> returns as many results as it was given, each with as many side effects
  as before. Every side effect gets a classification; a result differs from the one given
  only in its side effects, and a side effect only in its classification, so id, type,
  tier, location, description and target of every effect and target and metadata of every
  result are as they were. When \<open>Verbose\<close> is false every signal of every attached
  classification has empty \<open>SourceFile\<close>, \<open>Excerpt\<close> and \<open>Reasoning\<close>. This holds for
  every behaviour of the four analyzers that are parameters.
\<close>

theorem Classify_frame:
  "length (Classify an results opts) = length results
   \<and> (\<forall>i < length results.
        Classify an results opts ! i
          = (results ! i)\<lparr>SideEffects := SideEffects (Classify an results opts ! i)\<rparr>
        \<and> RTarget (Classify an results opts ! i) = RTarget (results ! i)
        \<and> RMetadata (Classify an results opts ! i) = RMetadata (results ! i)
        \<and> length (SideEffects (Classify an results opts ! i))
            = length (SideEffects (results ! i))
        \<and> (\<forall>j < length (SideEffects (results ! i)).
             SideEffects (Classify an results opts ! i) ! j
               = (SideEffects (results ! i) ! j)
                   \<lparr>Classification :=
                      Classification (SideEffects (Classify an results opts ! i) ! j)\<rparr>
             \<and> ID (SideEffects (Classify an results opts ! i) ! j)
                 = ID (SideEffects (results ! i) ! j)
             \<and> Type (SideEffects (Classify an results opts ! i) ! j)
                 = Type (SideEffects (results ! i) ! j)
             \<and> ETier (SideEffects (Classify an results opts ! i) ! j)
                 = ETier (SideEffects (results ! i) ! j)
             \<and> Location (SideEffects (Classify an results opts ! i) ! j)
                 = Location (SideEffects (results ! i) ! j)
             \<and> Description (SideEffects (Classify an results opts ! i) ! j)
                 = Description (SideEffects (results ! i) ! j)
             \<and> Target (SideEffects (Classify an results opts ! i) ! j)
                 = Target (SideEffects (results ! i) ! j)
             \<and> (\<exists>c. Classification (SideEffects (Classify an results opts ! i) ! j) = Some c
                  \<and> (\<not> Verbose opts \<longrightarrow>
                       (\<forall>s \<in> set (Signals c).
                          SourceFile s = '''' \<and> Excerpt s = '''' \<and> Reasoning s = '''')))))"
proof (intro conjI allI impI)
  show "length (Classify an results opts) = length results"
    by (simp add: Classify_def Let_def)
next
  fix i assume i: "i < length results"
  define r where "r = classifyResult an (withDefaultConfig opts)
    (buildFuncDeclMap (TargetPkg opts)) (buildFuncObjMap (TargetPkg opts)) (results ! i)"
  have ci: "Classify an results opts ! i = r"
    using i by (simp add: Classify_nth r_def)
  have fr: "r = (results ! i)\<lparr>SideEffects := SideEffects r\<rparr>"
    unfolding r_def by (rule classifyResult_frame(1))
  show "Classify an results opts ! i
      = (results ! i)\<lparr>SideEffects := SideEffects (Classify an results opts ! i)\<rparr>"
    unfolding ci by (rule fr)
  show "RTarget (Classify an results opts ! i) = RTarget (results ! i)"
    unfolding ci r_def by (simp add: classifyResult_def Let_def)
  show "RMetadata (Classify an results opts ! i) = RMetadata (results ! i)"
    unfolding ci r_def by (simp add: classifyResult_def Let_def)
  show "length (SideEffects (Classify an results opts ! i)) = length (SideEffects (results ! i))"
    unfolding ci r_def by (rule classifyResult_frame(2))
  fix j assume j: "j < length (SideEffects (results ! i))"
  obtain funcName funcDecl funcObj receiverType where
    e: "SideEffects (Classify an results opts ! i) ! j =
      classifyEffect an (withDefaultConfig opts) funcName funcDecl funcObj receiverType
        (SideEffects (results ! i) ! j)"
    unfolding ci r_def using classifyResult_effect_nth [OF j] by blast
  show "SideEffects (Classify an results opts ! i) ! j
      = (SideEffects (results ! i) ! j)
          \<lparr>Classification := Classification (SideEffects (Classify an results opts ! i) ! j)\<rparr>"
    unfolding e by (rule classifyEffect_frame)
  show "ID (SideEffects (Classify an results opts ! i) ! j) = ID (SideEffects (results ! i) ! j)"
    unfolding e by (simp add: classifyEffect_def Let_def)
  show "Type (SideEffects (Classify an results opts ! i) ! j)
      = Type (SideEffects (results ! i) ! j)"
    unfolding e by (simp add: classifyEffect_def Let_def)
  show "ETier (SideEffects (Classify an results opts ! i) ! j)
      = ETier (SideEffects (results ! i) ! j)"
    unfolding e by (simp add: classifyEffect_def Let_def)
  show "Location (SideEffects (Classify an results opts ! i) ! j)
      = Location (SideEffects (results ! i) ! j)"
    unfolding e by (simp add: classifyEffect_def Let_def)
  show "Description (SideEffects (Classify an results opts ! i) ! j)
      = Description (SideEffects (results ! i) ! j)"
    unfolding e by (simp add: classifyEffect_def Let_def)
  show "Target (SideEffects (Classify an results opts ! i) ! j)
      = Target (SideEffects (results ! i) ! j)"
    unfolding e by (simp add: classifyEffect_def Let_def)
  obtain c where c: "Classification (classifyEffect an (withDefaultConfig opts) funcName funcDecl
      funcObj receiverType (SideEffects (results ! i) ! j)) = Some c"
    using classifyEffect_signals by blast
  have "\<not> Verbose opts \<longrightarrow>
      (\<forall>s \<in> set (Signals c). SourceFile s = '''' \<and> Excerpt s = '''' \<and> Reasoning s = '''')"
    using classifyEffect_stripped [OF _ c] by (simp add: withDefaultConfig_simps)
  with c show "\<exists>c. Classification (SideEffects (Classify an results opts ! i) ! j) = Some c
      \<and> (\<not> Verbose opts \<longrightarrow>
           (\<forall>s \<in> set (Signals c). SourceFile s = '''' \<and> Excerpt s = '''' \<and> Reasoning s = ''''))"
    unfolding e by blast
qed

theorem Classify_frame_witness:
  "0 < length [exampleResult]
   \<and> \<not> Verbose exampleOptions
   \<and> Classify exampleAnalyzers [exampleResult] exampleOptions =
       [exampleResult\<lparr>SideEffects := [exampleEffect\<lparr>Classification := Some
          \<lparr>Label = Contractual, Confidence = 80,
           Signals = [sig ''visibility'' 10, sig ''caller'' 10, sig ''naming'' 10],
           CReasoning = ''''\<rparr>\<rparr>]\<rparr>]
   \<and> ID (SideEffects (Classify exampleAnalyzers [exampleResult] exampleOptions ! 0) ! 0)
       = ID (SideEffects ([exampleResult] ! 0) ! 0)
   \<and> (\<exists>c. Classification
          (SideEffects (Classify exampleAnalyzers [exampleResult] exampleOptions ! 0) ! 0) = Some c
        \<and> (\<forall>s \<in> set (Signals c).
              SourceFile s = '''' \<and> Excerpt s = '''' \<and> Reasoning s = ''''))"
proof -
  have ev: "Classify exampleAnalyzers [exampleResult] exampleOptions =
       [exampleResult\<lparr>SideEffects := [exampleEffect\<lparr>Classification := Some
          \<lparr>Label = Contractual, Confidence = 80,
           Signals = [sig ''visibility'' 10, sig ''caller'' 10, sig ''naming'' 10],
           CReasoning = ''''\<rparr>\<rparr>]\<rparr>]"
    by code_simp
  have h1: "0 < length [exampleResult]"
    by simp
  have h2: "0 < length (SideEffects ([exampleResult] ! 0))"
    by (simp add: exampleResult_def)
  have h3: "\<not> Verbose exampleOptions"
    by (simp add: exampleOptions_def)
  from Classify_frame [where an = exampleAnalyzers and results = "[exampleResult]"
      and opts = exampleOptions] h1 h2 h3
  have "ID (SideEffects (Classify exampleAnalyzers [exampleResult] exampleOptions ! 0) ! 0)
       = ID (SideEffects ([exampleResult] ! 0) ! 0)
   \<and> (\<exists>c. Classification
          (SideEffects (Classify exampleAnalyzers [exampleResult] exampleOptions ! 0) ! 0) = Some c
        \<and> (\<forall>s \<in> set (Signals c).
              SourceFile s = '''' \<and> Excerpt s = '''' \<and> Reasoning s = ''''))"
    by blast
  with ev h1 h3 show ?thesis
    by blast
qed

text \<open>
  C7. \<open>classifySideEffect\<close> returns the results of the five analyzers in the order
  interface, visibility, caller, naming, godoc, leaving out exactly those with an empty
  \<open>Source\<close>; so no element has an empty source, and none is the zero signal. The
  classification that \<open>Classify\<close> attaches to a side effect lists these signals in this
  order, with the detail fields emptied when \<open>Verbose\<close> is false (\<open>ComputeScore\<close>, as
  modelled from the spec, stores the list it is given).
\<close>

theorem Classify_signal_order:
  "classifySideEffect an funcName funcDecl funcObj receiverType effectType opts
     = filter (\<lambda>s. Source s \<noteq> '''')
         [AnalyzeInterfaceSignal an funcName receiverType effectType (ModulePackages opts),
          AnalyzeVisibilitySignal an funcDecl funcObj effectType,
          AnalyzeCallerSignal funcObj effectType (ModulePackages opts),
          AnalyzeNamingSignal an funcName effectType,
          AnalyzeGodocSignal an funcDecl effectType]
   \<and> (\<forall>s \<in> set (classifySideEffect an funcName funcDecl funcObj receiverType effectType opts).
         Source s \<noteq> '''' \<and> s \<noteq> zeroSignal)
   \<and> (\<forall>i < length results. \<forall>j < length (SideEffects (results ! i)).
        \<exists>c. Classification (SideEffects (Classify an results opts ! i) ! j) = Some c
          \<and> Signals c =
              map (if Verbose opts then id else stripDetail)
                (classifySideEffect an (Function (RTarget (results ! i)))
                  (buildFuncDeclMap (TargetPkg opts) (Function (RTarget (results ! i))))
                  (buildFuncObjMap (TargetPkg opts) (Function (RTarget (results ! i))))
                  (receiverTypeOf
                    (buildFuncObjMap (TargetPkg opts) (Function (RTarget (results ! i)))))
                  (Type (SideEffects (results ! i) ! j)) opts)
          \<and> (\<forall>s \<in> set (Signals c). Source s \<noteq> '''' \<and> s \<noteq> zeroSignal))"
proof (intro conjI allI impI)
  show "classifySideEffect an funcName funcDecl funcObj receiverType effectType opts
     = filter (\<lambda>s. Source s \<noteq> '''')
         [AnalyzeInterfaceSignal an funcName receiverType effectType (ModulePackages opts),
          AnalyzeVisibilitySignal an funcDecl funcObj effectType,
          AnalyzeCallerSignal funcObj effectType (ModulePackages opts),
          AnalyzeNamingSignal an funcName effectType,
          AnalyzeGodocSignal an funcDecl effectType]"
    by (rule classifySideEffect_filter)
next
  have nz: "Source s \<noteq> '''' \<Longrightarrow> s \<noteq> zeroSignal" for s
    by (auto simp add: zeroSignal_def)
  have src: "s \<in> set (classifySideEffect a n d ob r e p) \<Longrightarrow> Source s \<noteq> ''''" for s a n d ob r e p
    unfolding classifySideEffect_filter set_filter by blast
  show "\<forall>s \<in> set (classifySideEffect an funcName funcDecl funcObj receiverType effectType opts).
      Source s \<noteq> '''' \<and> s \<noteq> zeroSignal"
    using nz src by blast
  fix i j assume i: "i < length results" and j: "j < length (SideEffects (results ! i))"
  let ?fn = "Function (RTarget (results ! i))"
  let ?fd = "buildFuncDeclMap (TargetPkg opts) ?fn"
  let ?fo = "buildFuncObjMap (TargetPkg opts) ?fn"
  let ?se = "SideEffects (results ! i) ! j"
  let ?sigs = "classifySideEffect an ?fn ?fd ?fo (receiverTypeOf ?fo) (Type ?se) opts"
  have same: "classifySideEffect an ?fn ?fd ?fo (receiverTypeOf ?fo) (Type ?se)
      (withDefaultConfig opts) = ?sigs"
    by (simp add: classifySideEffect_filter withDefaultConfig_simps)
  have e: "SideEffects (Classify an results opts ! i) ! j =
      classifyEffect an (withDefaultConfig opts) ?fn ?fd ?fo (receiverTypeOf ?fo) ?se"
    using Classify_nth [OF i] classifyResult_effect_nth [OF j] by simp
  obtain c where c: "Classification (SideEffects (Classify an results opts ! i) ! j) = Some c"
    and sc: "Signals c = (if Verbose opts then ?sigs else map stripDetail ?sigs)"
    using classifyEffect_signals [of an "withDefaultConfig opts" ?fn ?fd ?fo "receiverTypeOf ?fo" ?se]
    unfolding e same by (auto simp add: withDefaultConfig_simps)
  have sc': "Signals c = map (if Verbose opts then id else stripDetail) ?sigs"
    using sc by simp
  have "\<forall>s \<in> set (Signals c). Source s \<noteq> '''' \<and> s \<noteq> zeroSignal"
  proof
    fix s assume "s \<in> set (Signals c)"
    then obtain t where t: "t \<in> set ?sigs" and st: "s = t \<or> s = stripDetail t"
      unfolding sc by (auto split: if_splits)
    from t have "Source t \<noteq> ''''" by (rule src)
    with st have "Source s \<noteq> ''''"
      by (auto simp add: stripDetail_fields)
    then show "Source s \<noteq> '''' \<and> s \<noteq> zeroSignal"
      using nz by blast
  qed
  with c sc' show "\<exists>c. Classification (SideEffects (Classify an results opts ! i) ! j) = Some c
      \<and> Signals c = map (if Verbose opts then id else stripDetail) ?sigs
      \<and> (\<forall>s \<in> set (Signals c). Source s \<noteq> '''' \<and> s \<noteq> zeroSignal)"
    by blast
qed

theorem Classify_signal_order_witness:
  "0 < length [exampleResult]
   \<and> 0 < length (SideEffects ([exampleResult] ! 0))
   \<and> classifySideEffect exampleAnalyzers ''Save'' None (Some saveObj) None ''ErrorReturn''
        exampleOptions
      = [\<lparr>Source = ''visibility'', Weight = 10, SourceFile = ''store.go'',
           Excerpt = ''func Save'', Reasoning = ''exported function''\<rparr>,
         \<lparr>Source = ''caller'', Weight = 10, SourceFile = '''', Excerpt = '''',
           Reasoning = ''2 caller(s) reference this function''\<rparr>,
         \<lparr>Source = ''naming'', Weight = 10, SourceFile = '''', Excerpt = '''',
           Reasoning = ''prefix Save''\<rparr>]
   \<and> (\<exists>c. Classification
          (SideEffects (Classify exampleAnalyzers [exampleResult] exampleOptions ! 0) ! 0) = Some c
        \<and> map Source (Signals c) = [''visibility'', ''caller'', ''naming''])"
proof -
  have h1: "0 < length [exampleResult]"
    by simp
  have h2: "0 < length (SideEffects ([exampleResult] ! 0))"
    by (simp add: exampleResult_def)
  have ev1: "filter (\<lambda>s. Source s \<noteq> '''')
         [AnalyzeInterfaceSignal exampleAnalyzers ''Save'' None ''ErrorReturn''
            (ModulePackages exampleOptions),
          AnalyzeVisibilitySignal exampleAnalyzers None (Some saveObj) ''ErrorReturn'',
          AnalyzeCallerSignal (Some saveObj) ''ErrorReturn'' (ModulePackages exampleOptions),
          AnalyzeNamingSignal exampleAnalyzers ''Save'' ''ErrorReturn'',
          AnalyzeGodocSignal exampleAnalyzers None ''ErrorReturn'']
      = [\<lparr>Source = ''visibility'', Weight = 10, SourceFile = ''store.go'',
           Excerpt = ''func Save'', Reasoning = ''exported function''\<rparr>,
         \<lparr>Source = ''caller'', Weight = 10, SourceFile = '''', Excerpt = '''',
           Reasoning = ''2 caller(s) reference this function''\<rparr>,
         \<lparr>Source = ''naming'', Weight = 10, SourceFile = '''', Excerpt = '''',
           Reasoning = ''prefix Save''\<rparr>]"
    by code_simp
  have ev2: "map Source (map (if Verbose exampleOptions then id else stripDetail)
        (classifySideEffect exampleAnalyzers (Function (RTarget ([exampleResult] ! 0)))
          (buildFuncDeclMap (TargetPkg exampleOptions) (Function (RTarget ([exampleResult] ! 0))))
          (buildFuncObjMap (TargetPkg exampleOptions) (Function (RTarget ([exampleResult] ! 0))))
          (receiverTypeOf
            (buildFuncObjMap (TargetPkg exampleOptions)
              (Function (RTarget ([exampleResult] ! 0)))))
          (Type (SideEffects ([exampleResult] ! 0) ! 0)) exampleOptions))
      = [''visibility'', ''caller'', ''naming'']"
    by code_simp
  note t = Classify_signal_order [where an = exampleAnalyzers and results = "[exampleResult]"
      and opts = exampleOptions and funcName = "''Save''" and funcDecl = None
      and funcObj = "Some saveObj" and receiverType = None and effectType = "''ErrorReturn''"]
  note a = trans [OF t [THEN conjunct1] ev1]
  note ex = t [THEN conjunct2, THEN conjunct2, rule_format, OF h1 h2]
  then obtain c where cc: "Classification
          (SideEffects (Classify exampleAnalyzers [exampleResult] exampleOptions ! 0) ! 0) = Some c
      \<and> Signals c = map (if Verbose exampleOptions then id else stripDetail)
        (classifySideEffect exampleAnalyzers (Function (RTarget ([exampleResult] ! 0)))
          (buildFuncDeclMap (TargetPkg exampleOptions) (Function (RTarget ([exampleResult] ! 0))))
          (buildFuncObjMap (TargetPkg exampleOptions) (Function (RTarget ([exampleResult] ! 0))))
          (receiverTypeOf
            (buildFuncObjMap (TargetPkg exampleOptions)
              (Function (RTarget ([exampleResult] ! 0)))))
          (Type (SideEffects ([exampleResult] ! 0) ! 0)) exampleOptions)
      \<and> (\<forall>s \<in> set (Signals c). Source s \<noteq> '''' \<and> s \<noteq> zeroSignal)" ..
  note c = cc [THEN conjunct1] and sc = cc [THEN conjunct2, THEN conjunct1]
  note m = trans [OF arg_cong [where f = "map Source", OF sc] ev2]
  have e: "\<exists>c. Classification
          (SideEffects (Classify exampleAnalyzers [exampleResult] exampleOptions ! 0) ! 0) = Some c
        \<and> map Source (Signals c) = [''visibility'', ''caller'', ''naming'']"
  proof (intro exI conjI)
    show "Classification
          (SideEffects (Classify exampleAnalyzers [exampleResult] exampleOptions ! 0) ! 0) = Some c"
      by (rule c)
    show "map Source (Signals c) = [''visibility'', ''caller'', ''naming'']"
      by (rule m)
  qed
  show ?thesis
    by (rule conjI [OF h1 conjI [OF h2 conjI [OF a e]]])
qed

section \<open>Properties of the loader\<close>

text \<open>
  C10. \<open>Load\<close> looks at the first package only. It returns an error exactly when
  \<open>packages.Load\<close> fails, when it returns no package, or when the first package carries
  errors; otherwise it returns a result whose \<open>Pkg\<close> is the first package (and whose
  \<open>Fset\<close> is that package's). The packages after the first do not enter the result, so
  their errors are ignored.
\<close>

theorem Load_first_package:
  "(isl (Load packagesLoad pattern) \<longleftrightarrow>
      (case packagesLoad pattern of
         Inl err \<Rightarrow> True
       | Inr [] \<Rightarrow> True
       | Inr (pkg # others) \<Rightarrow> Errors pkg \<noteq> []))
   \<and> (\<forall>err. packagesLoad pattern = Inl err \<longrightarrow>
         Load packagesLoad pattern = Inl (LoadingPackage pattern err))
   \<and> (packagesLoad pattern = Inr [] \<longrightarrow>
         Load packagesLoad pattern = Inl (NoPackagesFound pattern))
   \<and> (\<forall>pkg others. packagesLoad pattern = Inr (pkg # others) \<longrightarrow>
         (Errors pkg \<noteq> [] \<longrightarrow>
            Load packagesLoad pattern
              = Inl (PackageHasErrors pattern
                  (joinStrings (Errors pkg) [CHR 0x0A, CHR '' '', CHR '' ''])))
         \<and> (Errors pkg = [] \<longrightarrow>
            Load packagesLoad pattern = Inr \<lparr>Pkg = pkg, RFset = Fset pkg\<rparr>)
         \<and> (\<forall>others'.
               Load (\<lambda>p. Inr (pkg # others')) pattern = Load packagesLoad pattern))"
  by (auto simp add: Load_def Let_def split: sum.splits list.splits)

theorem Load_first_package_witness:
  "Load (\<lambda>p. Inr [storePkg, failingPkg]) ''./store''
     = Inr \<lparr>Pkg = storePkg, RFset = Fset storePkg\<rparr>
   \<and> Errors failingPkg \<noteq> []
   \<and> Load (\<lambda>p. Inr [failingPkg, storePkg]) ''./failing''
     = Inl (PackageHasErrors ''./failing'' ''failing.go:3:5: undefined: x'')
   \<and> Load (\<lambda>p. Inr []) ''./none'' = Inl (NoPackagesFound ''./none'')
   \<and> Load (\<lambda>p. Inl ''exit status 1'') ''./x'' = Inl (LoadingPackage ''./x'' ''exit status 1'')"
proof -
  have e1: "Errors storePkg = []"
    by (simp add: storePkg_def mkPackage_def)
  have e2: "Errors failingPkg = [''failing.go:3:5: undefined: x'']"
    by (simp add: failingPkg_def mkPackage_def)
  have e2': "Errors failingPkg \<noteq> []"
    unfolding e2 by simp
  have a: "Load (\<lambda>p. Inr [storePkg, failingPkg]) ''./store''
     = Inr \<lparr>Pkg = storePkg, RFset = Fset storePkg\<rparr>"
    using Load_first_package [where packagesLoad = "\<lambda>p. Inr [storePkg, failingPkg]"
        and pattern = "''./store''"] e1
    by simp
  have b: "Load (\<lambda>p. Inr [failingPkg, storePkg]) ''./failing''
     = Inl (PackageHasErrors ''./failing'' ''failing.go:3:5: undefined: x'')"
    using Load_first_package [where packagesLoad = "\<lambda>p. Inr [failingPkg, storePkg]"
        and pattern = "''./failing''"] e2
    by simp
  have c: "Load (\<lambda>p. Inr []) ''./none'' = Inl (NoPackagesFound ''./none'')"
    using Load_first_package [where packagesLoad = "\<lambda>p. Inr []" and pattern = "''./none''"]
    by simp
  have d: "Load (\<lambda>p. Inl ''exit status 1'') ''./x'' = Inl (LoadingPackage ''./x'' ''exit status 1'')"
    using Load_first_package [where packagesLoad = "\<lambda>p. Inl ''exit status 1''"
        and pattern = "''./x''"]
    by simp
  show ?thesis
    by (rule conjI [OF a conjI [OF e2' conjI [OF b conjI [OF c d]]]])
qed

section \<open>Properties of the identifiers\<close>

lemma length_word32Bytes: "length (word32Bytes x) = 4"
  by (simp add: word32Bytes_def)

lemma length_hashBytes: "length (hashBytes hs) = 32"
  by (cases hs rule: hashBytes.cases) (simp add: length_word32Bytes)

lemma length_Sum256: "length (Sum256 msg) = 32"
  by (simp add: Sum256_def Let_def length_hashBytes)

lemma length_hexBytes: "length (hexBytes bs) = 2 * length bs"
  by (induction bs) (simp_all add: hexBytes_def)

lemma hexBytes_Cons:
  "hexBytes (b # bs) = hexDigit (unat b div 16) # hexDigit (unat b mod 16) # hexBytes bs"
  by (simp add: hexBytes_def)

lemma take_hexBytes: "take (2 * n) (hexBytes bs) = hexBytes (take n bs)"
proof (induction bs arbitrary: n)
  case Nil
  show ?case by (simp add: hexBytes_def)
next
  case (Cons b bs)
  show ?case
  proof (cases n)
    case 0
    then show ?thesis by (simp add: hexBytes_def)
  next
    case (Suc m)
    then show ?thesis
      using Cons.IH [of m] by (simp add: hexBytes_Cons)
  qed
qed

lemma hexDigit_lower:
  assumes "d < 16"
  shows "hexDigit d \<in> set ''0123456789abcdef''"
proof -
  have "''0123456789abcdef'' ! d \<in> set ''0123456789abcdef''"
    by (rule nth_mem) (use assms in simp)
  then show ?thesis
    unfolding hexDigit_def .
qed

lemma hexBytes_lower:
  assumes "c \<in> set (hexBytes bs)"
  shows "c \<in> set ''0123456789abcdef''"
  using assms
proof (induction bs)
  case Nil
  then show ?case by (simp add: hexBytes_def)
next
  case (Cons b bs)
  have "unat b < 256"
    using unsigned_less [of b, where ?'a = nat] by simp
  then have hi: "unat b div 16 < 16"
    by simp
  have lo: "unat b mod 16 < 16"
    by simp
  from Cons.prems have "c = hexDigit (unat b div 16) \<or> c = hexDigit (unat b mod 16)
      \<or> c \<in> set (hexBytes bs)"
    unfolding hexBytes_Cons by simp
  then show ?case
    using hexDigit_lower [OF hi] hexDigit_lower [OF lo] Cons.IH by blast
qed

text \<open>
  C5. \<open>GenerateID\<close> returns "se-" followed by the first 8 hexadecimal characters, in
  lower case, of the SHA-256 of the four inputs joined with ":", which are the first 4
  bytes of the hash; the id has 11 characters. Equal inputs give equal ids: the id is a
  function of the four strings alone.
\<close>

theorem GenerateID_spec:
  "GenerateID pkg function effectType location
     = ''se-'' @ take 8 (hexBytes (Sum256 (bytesOf
         (pkg @ '':'' @ function @ '':'' @ effectType @ '':'' @ location))))
   \<and> take 8 (hexBytes (Sum256 (bytesOf
         (pkg @ '':'' @ function @ '':'' @ effectType @ '':'' @ location))))
     = hexBytes (take 4 (Sum256 (bytesOf
         (pkg @ '':'' @ function @ '':'' @ effectType @ '':'' @ location))))
   \<and> length (GenerateID pkg function effectType location) = 11
   \<and> (\<forall>c \<in> set (drop 3 (GenerateID pkg function effectType location)).
         c \<in> set ''0123456789abcdef'')
   \<and> (pkg' = pkg \<and> function' = function \<and> effectType' = effectType \<and> location' = location
        \<longrightarrow> GenerateID pkg' function' effectType' location'
            = GenerateID pkg function effectType location)"
proof -
  let ?h = "Sum256 (bytesOf (pkg @ '':'' @ function @ '':'' @ effectType @ '':'' @ location))"
  have t: "take 8 (hexBytes ?h) = hexBytes (take 4 ?h)"
    using take_hexBytes [of 4 ?h] by simp
  have g: "GenerateID pkg function effectType location = ''se-'' @ hexBytes (take 4 ?h)"
    by (simp add: GenerateID_def Let_def)
  have l: "length (GenerateID pkg function effectType location) = 11"
    unfolding g by (simp add: length_hexBytes length_Sum256)
  have d: "drop 3 (GenerateID pkg function effectType location) = hexBytes (take 4 ?h)"
    unfolding g by simp
  have c: "\<forall>c \<in> set (drop 3 (GenerateID pkg function effectType location)).
      c \<in> set ''0123456789abcdef''"
    unfolding d using hexBytes_lower by blast
  from g t l c show ?thesis
    by simp
qed

theorem GenerateID_spec_witness:
  "length (GenerateID ''pkg/foo'' ''Save'' ''ReceiverMutation'' ''foo.go:10:2'') = 11
   \<and> take 3 (GenerateID ''pkg/foo'' ''Save'' ''ReceiverMutation'' ''foo.go:10:2'') = ''se-''
   \<and> set (drop 3 (GenerateID ''pkg/foo'' ''Save'' ''ReceiverMutation'' ''foo.go:10:2''))
       \<subseteq> set ''0123456789abcdef''
   \<and> GenerateID ''pkg/foo'' ''Save'' ''ReceiverMutation'' ''foo.go:10:2''
       = GenerateID ''pkg/foo'' ''Save'' ''ReceiverMutation'' ''foo.go:10:2''"
proof -
  note s = GenerateID_spec [of "''pkg/foo''" "''Save''" "''ReceiverMutation''" "''foo.go:10:2''"
      "''pkg/foo''" "''Save''" "''ReceiverMutation''" "''foo.go:10:2''"]
  note l = s [THEN conjunct2, THEN conjunct2, THEN conjunct1]
  note b = s [THEN conjunct2, THEN conjunct2, THEN conjunct2, THEN conjunct1]
  note d = s [THEN conjunct2, THEN conjunct2, THEN conjunct2, THEN conjunct2, rule_format]
  have p: "take 3 (GenerateID ''pkg/foo'' ''Save'' ''ReceiverMutation'' ''foo.go:10:2'') = ''se-''"
    unfolding s [THEN conjunct1] by simp
  have sub: "set (drop 3 (GenerateID ''pkg/foo'' ''Save'' ''ReceiverMutation'' ''foo.go:10:2''))
       \<subseteq> set ''0123456789abcdef''"
  proof (rule subsetI)
    fix c
    assume "c \<in> set (drop 3 (GenerateID ''pkg/foo'' ''Save'' ''ReceiverMutation'' ''foo.go:10:2''))"
    with b show "c \<in> set ''0123456789abcdef''"
      by (rule bspec)
  qed
  have e: "GenerateID ''pkg/foo'' ''Save'' ''ReceiverMutation'' ''foo.go:10:2''
       = GenerateID ''pkg/foo'' ''Save'' ''ReceiverMutation'' ''foo.go:10:2''"
    by (rule d) (intro conjI refl)
  show ?thesis
    by (rule conjI [OF l conjI [OF p conjI [OF sub e]]])
qed

section \<open>Properties of the analyze command\<close>

lemma hasPrefix_iff: "hasPrefix s p \<longleftrightarrow> (\<exists>ss. s = p @ ss)"
  by (induction s p rule: hasPrefix.induct) auto

lemma containsStr_iff: "containsStr s sub \<longleftrightarrow> (\<exists>ps ss. s = ps @ sub @ ss)"
proof (induction s)
  case Nil
  show ?case by auto
next
  case (Cons c cs)
  show ?case
  proof
    assume "containsStr (c # cs) sub"
    then consider "hasPrefix (c # cs) sub" | "containsStr cs sub"
      by auto
    then show "\<exists>ps ss. c # cs = ps @ sub @ ss"
    proof cases
      case 1
      then obtain ss where "c # cs = sub @ ss"
        unfolding hasPrefix_iff by blast
      then have "c # cs = [] @ sub @ ss"
        by simp
      then show ?thesis by blast
    next
      case 2
      then obtain ps ss where "cs = ps @ sub @ ss"
        unfolding Cons.IH by blast
      then have "c # cs = (c # ps) @ sub @ ss"
        by simp
      then show ?thesis by blast
    qed
  next
    assume "\<exists>ps ss. c # cs = ps @ sub @ ss"
    then obtain ps ss where eq: "c # cs = ps @ sub @ ss"
      by blast
    show "containsStr (c # cs) sub"
    proof (cases ps)
      case Nil
      with eq have "hasPrefix (c # cs) sub"
        unfolding hasPrefix_iff by auto
      then show ?thesis by simp
    next
      case (Cons p ps')
      with eq have "cs = ps' @ sub @ ss"
        by simp
      then have "containsStr cs sub"
        unfolding Cons.IH by blast
      then show ?thesis by simp
    qed
  qed
qed

lemma quoteBody_plainText:
  assumes "plainText s"
  shows "quoteBody nonASCII s = s"
  using assms
  by (induction s) (simp_all add: plainText_def quoteASCII_def Let_def)

lemma goQuote_plainText:
  assumes "plainText s"
  shows "goQuote nonASCII s = [CHR 0x22] @ s @ [CHR 0x22]"
  by (simp add: goQuote_def quoteBody_plainText [OF assms])

text \<open>
  C8, as the claim states it: the error message contains the literal function name. The
  name is written with \<open>%q\<close>, which escapes a double quote: for the filter \<open>a"b\<close>, which
  matches no function, the message is \<open>function "a\"b" not found in package "./store"\<close>
  and the text \<open>a"b\<close> does not occur in it.
\<close>

theorem analyze_not_found_counterexample:
  "LoadAndAnalyze emptyEnv ''./store''
      \<lparr>IncludeUnexported = False, FunctionFilter = [CHR ''a'', CHR 0x22, CHR ''b'']\<rparr> = Inr []
   \<and> Err (analyzeRunE emptyEnv [CHR ''a'', CHR 0x22, CHR ''b''] ''text'' False ''./store'')
       = Some (''function '' @ [CHR 0x22, CHR ''a'', CHR 0x5C, CHR 0x22, CHR ''b'', CHR 0x22]
               @ '' not found in package '' @ [CHR 0x22] @ ''./store'' @ [CHR 0x22])
   \<and> \<not> containsStr
         (''function '' @ [CHR 0x22, CHR ''a'', CHR 0x5C, CHR 0x22, CHR ''b'', CHR 0x22]
               @ '' not found in package '' @ [CHR 0x22] @ ''./store'' @ [CHR 0x22])
         [CHR ''a'', CHR 0x22, CHR ''b'']"
proof -
  have a: "LoadAndAnalyze emptyEnv ''./store''
      \<lparr>IncludeUnexported = False, FunctionFilter = [CHR ''a'', CHR 0x22, CHR ''b'']\<rparr> = Inr []"
    by (simp add: emptyEnv_def)
  have b: "Err (analyzeRunE emptyEnv [CHR ''a'', CHR 0x22, CHR ''b''] ''text'' False ''./store'')
       = Some (''function '' @ [CHR 0x22, CHR ''a'', CHR 0x5C, CHR 0x22, CHR ''b'', CHR 0x22]
               @ '' not found in package '' @ [CHR 0x22] @ ''./store'' @ [CHR 0x22])"
    by code_simp
  have c: "\<not> containsStr
         (''function '' @ [CHR 0x22, CHR ''a'', CHR 0x5C, CHR 0x22, CHR ''b'', CHR 0x22]
               @ '' not found in package '' @ [CHR 0x22] @ ''./store'' @ [CHR 0x22])
         [CHR ''a'', CHR 0x22, CHR ''b'']"
    by code_simp
  show ?thesis
    by (rule conjI [OF a conjI [OF b c]])
qed

text \<open>
  C8, amended. With a valid format, when the analysis returns no result: if the function
  filter is not empty, the command returns the error
  \<open>function Q(function) not found in package Q(package)\<close>, where \<open>Q\<close> is the quoting of
  \<open>%q\<close>, and the process exits with status 1; a function name or package argument made
  of printable ASCII characters other than \<open>"\<close> and \<open>\\<close> stands in the message as it
  is, between double quotes. If the filter is empty (no \<open>--function\<close>), there is no
  error: the notice goes to standard error, nothing to standard output, and the status
  is 0.
\<close>

theorem analyze_zero_results:
  "(format = ''text'' \<or> format = ''json'')
   \<and> LoadAndAnalyze env pkgPath \<lparr>IncludeUnexported = includeUnexported, FunctionFilter = function\<rparr>
       = Inr []
   \<longrightarrow>
     (function \<noteq> '''' \<longrightarrow>
        Err (analyzeRunE env function format includeUnexported pkgPath)
          = Some (''function '' @ goQuote (QuoteNonASCII env) function
                  @ '' not found in package '' @ goQuote (QuoteNonASCII env) pkgPath)
        \<and> snd (mainAnalyze env function format includeUnexported pkgPath) = 1
        \<and> (plainText function \<longrightarrow>
              goQuote (QuoteNonASCII env) function = [CHR 0x22] @ function @ [CHR 0x22]
              \<and> (\<exists>msg. Err (analyzeRunE env function format includeUnexported pkgPath) = Some msg
                    \<and> containsStr msg function))
        \<and> (plainText pkgPath \<longrightarrow>
              goQuote (QuoteNonASCII env) pkgPath = [CHR 0x22] @ pkgPath @ [CHR 0x22]
              \<and> (\<exists>msg. Err (analyzeRunE env function format includeUnexported pkgPath) = Some msg
                    \<and> containsStr msg pkgPath)))
     \<and> (function = '''' \<longrightarrow>
        mainAnalyze env function format includeUnexported pkgPath
          = (\<lparr>Stdout = '''', Stderr = ''no functions found to analyze'' @ [CHR 0x0A],
              Err = None\<rparr>, 0))"
proof (intro impI conjI; (elim conjE)?)
  assume fmt: "format = ''text'' \<or> format = ''json''"
    and res: "LoadAndAnalyze env pkgPath
        \<lparr>IncludeUnexported = includeUnexported, FunctionFilter = function\<rparr> = Inr []"
  have valid: "\<not> (format \<noteq> ''text'' \<and> format \<noteq> ''json'')"
    using fmt by blast
  {
    assume ne: "function \<noteq> ''''"
    show err: "Err (analyzeRunE env function format includeUnexported pkgPath)
          = Some (''function '' @ goQuote (QuoteNonASCII env) function
                  @ '' not found in package '' @ goQuote (QuoteNonASCII env) pkgPath)"
      unfolding analyzeRunE_def Let_def using valid res ne by simp
    then show "snd (mainAnalyze env function format includeUnexported pkgPath) = 1"
      by (simp add: mainAnalyze_def Let_def)
    {
      assume pl: "plainText function"
      show "goQuote (QuoteNonASCII env) function = [CHR 0x22] @ function @ [CHR 0x22]"
        by (rule goQuote_plainText [OF pl])
      have "containsStr (''function '' @ goQuote (QuoteNonASCII env) function
                  @ '' not found in package '' @ goQuote (QuoteNonASCII env) pkgPath) function"
        unfolding containsStr_iff goQuote_plainText [OF pl]
        by (intro exI [of _ "''function '' @ [CHR 0x22]"]
            exI [of _ "[CHR 0x22] @ '' not found in package '' @ goQuote (QuoteNonASCII env) pkgPath"])
          simp
      with err show "\<exists>msg. Err (analyzeRunE env function format includeUnexported pkgPath) = Some msg
          \<and> containsStr msg function"
        by (intro exI conjI)
    }
    {
      assume pl: "plainText pkgPath"
      show "goQuote (QuoteNonASCII env) pkgPath = [CHR 0x22] @ pkgPath @ [CHR 0x22]"
        by (rule goQuote_plainText [OF pl])
      have "containsStr (''function '' @ goQuote (QuoteNonASCII env) function
                  @ '' not found in package '' @ goQuote (QuoteNonASCII env) pkgPath) pkgPath"
        unfolding containsStr_iff goQuote_plainText [OF pl]
        by (intro exI [of _ "''function '' @ goQuote (QuoteNonASCII env) function
              @ '' not found in package '' @ [CHR 0x22]"] exI [of _ "[CHR 0x22]"])
          simp
      with err show "\<exists>msg. Err (analyzeRunE env function format includeUnexported pkgPath) = Some msg
          \<and> containsStr msg pkgPath"
        by (intro exI conjI)
    }
  }
  {
    assume e: "function = ''''"
    have "analyzeRunE env function format includeUnexported pkgPath
        = \<lparr>Stdout = '''', Stderr = ''no functions found to analyze'' @ [CHR 0x0A], Err = None\<rparr>"
      unfolding analyzeRunE_def Let_def using valid res e by simp
    then show "mainAnalyze env function format includeUnexported pkgPath
          = (\<lparr>Stdout = '''', Stderr = ''no functions found to analyze'' @ [CHR 0x0A],
              Err = None\<rparr>, 0)"
      by (simp add: mainAnalyze_def Let_def)
  }
qed

theorem analyze_zero_results_witness:
  "plainText ''Missing'' \<and> plainText ''./store''
   \<and> Err (analyzeRunE emptyEnv ''Missing'' ''text'' False ''./store'')
       = Some (''function '' @ ([CHR 0x22] @ ''Missing'' @ [CHR 0x22])
               @ '' not found in package '' @ ([CHR 0x22] @ ''./store'' @ [CHR 0x22]))
   \<and> snd (mainAnalyze emptyEnv ''Missing'' ''text'' False ''./store'') = 1
   \<and> mainAnalyze emptyEnv '''' ''json'' True ''./store''
       = (\<lparr>Stdout = '''', Stderr = ''no functions found to analyze'' @ [CHR 0x0A],
           Err = None\<rparr>, 0)"
proof -
  have f1: "''text'' = ''text'' \<or> ''text'' = ''json''"
    by simp
  have f2: "''json'' = ''text'' \<or> ''json'' = ''json''"
    by simp
  have r1: "LoadAndAnalyze emptyEnv ''./store''
      \<lparr>IncludeUnexported = False, FunctionFilter = ''Missing''\<rparr> = Inr []"
    by (simp add: emptyEnv_def)
  have r2: "LoadAndAnalyze emptyEnv ''./store''
      \<lparr>IncludeUnexported = True, FunctionFilter = ''''\<rparr> = Inr []"
    by (simp add: emptyEnv_def)
  have ne: "''Missing'' \<noteq> ''''"
    by simp
  have p1: "plainText ''Missing''"
    by (simp add: plainText_def)
  have p2: "plainText ''./store''"
    by (simp add: plainText_def)
  note n = analyze_zero_results [THEN mp, OF conjI [OF f1 r1], THEN conjunct1, THEN mp, OF ne]
  note e = analyze_zero_results [THEN mp, OF conjI [OF f2 r2], THEN conjunct2, THEN mp, OF refl]
  note qf = n [THEN conjunct2, THEN conjunct2, THEN conjunct1, THEN mp, OF p1, THEN conjunct1]
  note qp = n [THEN conjunct2, THEN conjunct2, THEN conjunct2, THEN mp, OF p2, THEN conjunct1]
  note msg = n [THEN conjunct1, unfolded qf qp]
  note ex = n [THEN conjunct2, THEN conjunct1]
  show ?thesis
    by (rule conjI [OF p1 conjI [OF p2 conjI [OF msg conjI [OF ex e]]]])
qed

section \<open>Properties of the configuration loader\<close>

text \<open>
  C6, as the claim states its second part: an error whenever the \<open>doc_scan.timeout\<close>
  string of the file fails to parse as a duration. A file that sets the timeout to the
  empty string is decoded without error; the empty string is not a duration, but \<open>Load\<close>
  parses the string only when it is not empty, so it returns the configuration, with the
  default timeout of 30s, and no error.
\<close>

theorem ConfigLoad_empty_timeout_counterexample:
  "ReadFile exampleConfigEnv ''notimeout.yaml'' = FileData ''timeout-empty''
   \<and> map_sum id timeoutStrOf (YamlUnmarshal exampleConfigEnv ''timeout-empty'' DefaultConfig)
       = Inr ''''
   \<and> ParseDuration exampleConfigEnv ''''
       = Inl (''time: invalid duration '' @ [CHR 0x22, CHR 0x22])
   \<and> map_sum id (\<lambda>cfg. (timeoutStrOf cfg, Timeout (CDocScan (GClassification cfg))))
         (ConfigLoad exampleConfigEnv ''notimeout.yaml'')
       = Inr ('''', 30 * Second)"
proof -
  have a: "ReadFile exampleConfigEnv ''notimeout.yaml'' = FileData ''timeout-empty''"
    by code_simp
  have b: "map_sum id timeoutStrOf
      (YamlUnmarshal exampleConfigEnv ''timeout-empty'' DefaultConfig) = Inr ''''"
    by code_simp
  have c: "ParseDuration exampleConfigEnv ''''
       = Inl (''time: invalid duration '' @ [CHR 0x22, CHR 0x22])"
    by code_simp
  have d: "map_sum id (\<lambda>cfg. (timeoutStrOf cfg, Timeout (CDocScan (GClassification cfg))))
         (ConfigLoad exampleConfigEnv ''notimeout.yaml'')
       = Inr ('''', 30 * Second)"
    by code_simp
  show ?thesis
    by (rule conjI [OF a conjI [OF b conjI [OF c d]]])
qed

text \<open>
  C6, amended. \<open>Load\<close> returns the default configuration (thresholds 80 and 50, timeout
  30s, the nine exclude patterns, no include pattern) and no error when the file does
  not exist. It returns an error when the file cannot be read, when the decoder rejects
  it, and when the timeout string left by the decoder is not empty and fails to parse as
  a duration; an empty timeout string is not parsed and leaves the timeout as it was.
  The decoder is given the default configuration to fill, and the result is what the
  decoder returns, with only \<open>Timeout\<close> set from a non-empty timeout string: a field the
  decoder leaves alone keeps its default, and a file that leaves everything alone, such
  as an empty file, gives the default configuration (its timeout string "30s" parsing
  to 30s).
\<close>

theorem ConfigLoad_spec:
  "(ReadFile env path = NotExist \<longrightarrow> ConfigLoad env path = Inr DefaultConfig)
   \<and> CThresholds (GClassification DefaultConfig) = \<lparr>TContractual = 80, TIncidental = 50\<rparr>
   \<and> CDocScan (GClassification DefaultConfig)
       = \<lparr>Exclude = [''vendor/**'', ''node_modules/**'', ''.git/**'', ''testdata/**'',
            ''CHANGELOG.md'', ''CONTRIBUTING.md'', ''CODE_OF_CONDUCT.md'', ''LICENSE'',
            ''LICENSE.md''],
          Include = [], Timeout = 30 * 1000000000, TimeoutStr = ''30s''\<rparr>
   \<and> (\<forall>err. ReadFile env path = ReadFailed err \<longrightarrow>
         ConfigLoad env path = Inl (ReadingConfig path err))
   \<and> (\<forall>data. ReadFile env path = FileData data \<longrightarrow>
         (\<forall>err. YamlUnmarshal env data DefaultConfig = Inl err \<longrightarrow>
            ConfigLoad env path = Inl (ParsingConfig path err))
         \<and> (\<forall>cfg. YamlUnmarshal env data DefaultConfig = Inr cfg \<longrightarrow>
              (timeoutStrOf cfg = '''' \<longrightarrow> ConfigLoad env path = Inr cfg)
              \<and> (\<forall>err. timeoutStrOf cfg \<noteq> ''''
                    \<and> ParseDuration env (timeoutStrOf cfg) = Inl err \<longrightarrow>
                    ConfigLoad env path = Inl (ParsingTimeout (timeoutStrOf cfg) err))
              \<and> (\<forall>d. timeoutStrOf cfg \<noteq> ''''
                    \<and> ParseDuration env (timeoutStrOf cfg) = Inr d \<longrightarrow>
                    ConfigLoad env path = Inr (setTimeout d cfg)
                    \<and> CThresholds (GClassification (setTimeout d cfg))
                        = CThresholds (GClassification cfg)
                    \<and> CDocScan (GClassification (setTimeout d cfg))
                        = (CDocScan (GClassification cfg))\<lparr>Timeout := d\<rparr>))
         \<and> (YamlUnmarshal env data DefaultConfig = Inr DefaultConfig
              \<and> ParseDuration env ''30s'' = Inr (30 * Second) \<longrightarrow>
              ConfigLoad env path = Inr DefaultConfig))"
proof -
  have dts: "timeoutStrOf DefaultConfig = ''30s''"
    by (simp add: timeoutStrOf_def DefaultConfig_def)
  have dset: "setTimeout (30 * Second) DefaultConfig = DefaultConfig"
    by (simp add: setTimeout_def DefaultConfig_def)
  have a: "ReadFile env path = NotExist \<longrightarrow> ConfigLoad env path = Inr DefaultConfig"
    by (simp add: ConfigLoad_def)
  have b: "CThresholds (GClassification DefaultConfig) = \<lparr>TContractual = 80, TIncidental = 50\<rparr>"
    by (simp add: DefaultConfig_def)
  have c: "CDocScan (GClassification DefaultConfig)
       = \<lparr>Exclude = [''vendor/**'', ''node_modules/**'', ''.git/**'', ''testdata/**'',
            ''CHANGELOG.md'', ''CONTRIBUTING.md'', ''CODE_OF_CONDUCT.md'', ''LICENSE'',
            ''LICENSE.md''],
          Include = [], Timeout = 30 * 1000000000, TimeoutStr = ''30s''\<rparr>"
    by (simp add: DefaultConfig_def Second_def)
  have d: "\<forall>err. ReadFile env path = ReadFailed err \<longrightarrow>
         ConfigLoad env path = Inl (ReadingConfig path err)"
    by (simp add: ConfigLoad_def)
  have e: "\<forall>data. ReadFile env path = FileData data \<longrightarrow>
         (\<forall>err. YamlUnmarshal env data DefaultConfig = Inl err \<longrightarrow>
            ConfigLoad env path = Inl (ParsingConfig path err))
         \<and> (\<forall>cfg. YamlUnmarshal env data DefaultConfig = Inr cfg \<longrightarrow>
              (timeoutStrOf cfg = '''' \<longrightarrow> ConfigLoad env path = Inr cfg)
              \<and> (\<forall>err. timeoutStrOf cfg \<noteq> ''''
                    \<and> ParseDuration env (timeoutStrOf cfg) = Inl err \<longrightarrow>
                    ConfigLoad env path = Inl (ParsingTimeout (timeoutStrOf cfg) err))
              \<and> (\<forall>d. timeoutStrOf cfg \<noteq> ''''
                    \<and> ParseDuration env (timeoutStrOf cfg) = Inr d \<longrightarrow>
                    ConfigLoad env path = Inr (setTimeout d cfg)
                    \<and> CThresholds (GClassification (setTimeout d cfg))
                        = CThresholds (GClassification cfg)
                    \<and> CDocScan (GClassification (setTimeout d cfg))
                        = (CDocScan (GClassification cfg))\<lparr>Timeout := d\<rparr>))
         \<and> (YamlUnmarshal env data DefaultConfig = Inr DefaultConfig
              \<and> ParseDuration env ''30s'' = Inr (30 * Second) \<longrightarrow>
              ConfigLoad env path = Inr DefaultConfig)"
    by (simp add: ConfigLoad_def setTimeout_def dts dset [unfolded setTimeout_def])
  from a b c d e show ?thesis
    by (intro conjI)
qed

theorem ConfigLoad_spec_witness:
  "ConfigLoad exampleConfigEnv ''missing.yaml'' = Inr DefaultConfig
   \<and> ConfigLoad exampleConfigEnv ''broken.yaml''
       = Inl (ParsingConfig ''broken.yaml'' ''yaml: did not find expected key'')
   \<and> ConfigLoad exampleConfigEnv ''empty.yaml'' = Inr DefaultConfig
   \<and> ConfigLoad exampleConfigEnv ''valid.yaml'' = Inr (setTimeout (15 * Second) validDecoded)
   \<and> CThresholds (GClassification (setTimeout (15 * Second) validDecoded))
       = CThresholds (GClassification validDecoded)"
proof -
  have r0: "ReadFile exampleConfigEnv ''missing.yaml'' = NotExist"
    by code_simp
  have r1: "ReadFile exampleConfigEnv ''broken.yaml'' = FileData ''{''"
    by code_simp
  have r2: "ReadFile exampleConfigEnv ''empty.yaml'' = FileData ''''"
    by code_simp
  have r3: "ReadFile exampleConfigEnv ''valid.yaml'' = FileData ''valid''"
    by code_simp
  have y1: "YamlUnmarshal exampleConfigEnv ''{'' DefaultConfig
      = Inl ''yaml: did not find expected key''"
    by code_simp
  have y2: "YamlUnmarshal exampleConfigEnv '''' DefaultConfig = Inr DefaultConfig"
    by code_simp
  have y3: "YamlUnmarshal exampleConfigEnv ''valid'' DefaultConfig = Inr validDecoded"
    by code_simp
  have p2: "ParseDuration exampleConfigEnv ''30s'' = Inr (30 * Second)"
    by code_simp
  have t3: "timeoutStrOf validDecoded \<noteq> ''''"
    by code_simp
  have p3: "ParseDuration exampleConfigEnv (timeoutStrOf validDecoded) = Inr (15 * Second)"
    by code_simp
  note a = ConfigLoad_spec [THEN conjunct1, THEN mp, OF r0]
  note f1 = ConfigLoad_spec [THEN conjunct2, THEN conjunct2, THEN conjunct2, THEN conjunct2,
      THEN spec, THEN mp, OF r1]
  note f2 = ConfigLoad_spec [THEN conjunct2, THEN conjunct2, THEN conjunct2, THEN conjunct2,
      THEN spec, THEN mp, OF r2]
  note f3 = ConfigLoad_spec [THEN conjunct2, THEN conjunct2, THEN conjunct2, THEN conjunct2,
      THEN spec, THEN mp, OF r3]
  note b = f1 [THEN conjunct1, THEN spec, THEN mp, OF y1]
  note c = f2 [THEN conjunct2, THEN conjunct2, THEN mp, OF conjI [OF y2 p2]]
  note g3 = f3 [THEN conjunct2, THEN conjunct1, THEN spec, THEN mp, OF y3]
  note d = g3 [THEN conjunct2, THEN conjunct2, THEN spec, THEN mp, OF conjI [OF t3 p3]]
  show ?thesis
    by (rule conjI [OF a conjI [OF b conjI [OF c
          conjI [OF d [THEN conjunct1] d [THEN conjunct2, THEN conjunct1]]]]])
qed

end
